theory Spec2Isabelle
  imports Main
begin

section \<open>Data model (types/slot.ts)\<close>

text \<open>
  A JavaScript \<open>Date\<close> holding a valid instant is its number of milliseconds since the
  epoch, an \<open>int\<close>. A \<open>Date\<close> holds instants up to 8.64e15 milliseconds from the epoch on
  either side; the model has no such bound, so that arithmetic which leaves this range in
  the source (and gives an invalid date there) stays an instant here. Durations are whole
  minutes, also \<open>int\<close>. A slot is the record of
  \<open>interface Slot\<close>; its field \<open>id\<close> is called \<open>id'\<close> here, since \<open>id\<close> is the identity
  function of HOL.
\<close>

record Slot =
  id' :: string
  startTime :: int
  endTime :: int
  isAvailable :: bool

text \<open>\<open>interface SlotConfig\<close>: the generation parameters.\<close>

record SlotConfig =
  c_startDate :: string
  c_endDate :: string
  c_startTime :: string
  c_endTime :: string
  c_timeZone :: string
  slotDuration :: int
  breakDuration :: int
  bufferDuration :: int

text \<open>Exceptions of the source are values: the constructor is the class, the string the message.\<close>

datatype js_error = Error string | TypeError string

section \<open>The timezone authority (moment-timezone)\<close>

text \<open>
  The date library is not part of the repository; the program is written against it. What the
  program needs from it is a parameter of the model:
  \<^item> \<open>tz_raises name\<close>: whether \<open>m.tz(name)\<close> throws for this (non-empty) name;
  \<open>zone_exists name\<close>: whether \<open>moment.tz.zone(name)\<close> is non-null;
  \<open>zone_names\<close>: the list \<open>moment.tz.names()\<close>;
  \<^item> \<open>parse_day zone s\<close>: the calendar day (a day number) of
  \<open>moment.tz(s, zone).startOf('day')\<close>, \<open>None\<close> when the moment is invalid;
  \<open>local_instant zone d h m\<close>: the instant of wall-clock time \<open>h:m:00.000\<close> on calendar
  day \<open>d\<close> of the zone (what \<open>date.clone().hour(h).minute(m).second(0).millisecond(0)\<close>
  denotes for the midnight moment \<open>date\<close> of day \<open>d\<close>);
  \<^item> \<open>day_start zone s\<close> and \<open>day_end zone s\<close>: the instants of
  \<open>moment.tz(s, zone).startOf('day')\<close> and \<open>.endOf('day')\<close>, \<open>None\<close> when invalid;
  \<^item> \<open>local_hour zone t\<close>, \<open>local_minute zone t\<close>: the wall-clock fields
  \<open>moment(t).tz(zone).hour()\<close> and \<open>.minute()\<close>.
\<close>

record tz_authority =
  tz_raises :: "string \<Rightarrow> bool"
  zone_exists :: "string \<Rightarrow> bool"
  zone_names :: "string list"
  parse_day :: "string \<Rightarrow> string \<Rightarrow> int option"
  local_instant :: "string \<Rightarrow> int \<Rightarrow> int \<Rightarrow> int \<Rightarrow> int"
  day_start :: "string \<Rightarrow> string \<Rightarrow> int option"
  day_end :: "string \<Rightarrow> string \<Rightarrow> int option"
  local_hour :: "string \<Rightarrow> int \<Rightarrow> int"
  local_minute :: "string \<Rightarrow> int \<Rightarrow> int"

text \<open>
  A moment is an instant together with the zone it is rendered in. \<open>moment(date)\<close> wraps the
  instant, \<open>.tz(name)\<close> changes the zone only, \<open>.toDate()\<close> gives the instant back, and
  the comparisons \<open>isSameOrAfter\<close>, \<open>isAfter\<close>, \<open>isBetween(_, _, null, '[]')\<close> compare
  instants. \<open>m.tz('')\<close> is the getter form and returns \<open>undefined\<close> for a moment
  without a zone, so the method call that follows it raises a TypeError.
\<close>

record moment =
  m_instant :: int
  m_zone :: "string option"

definition moment_of :: "int \<Rightarrow> moment" where
  "moment_of d = \<lparr>m_instant = d, m_zone = None\<rparr>"

definition tz :: "tz_authority \<Rightarrow> string \<Rightarrow> moment \<Rightarrow> js_error + moment" where
  "tz A name m =
     (if name = [] then Inl (TypeError ''undefined is not an object'')
      else if tz_raises A name then Inl (Error ''Time zone failure'')
      else Inr (m\<lparr>m_zone := Some name\<rparr>))"

definition toDate :: "moment \<Rightarrow> int" where
  "toDate m = m_instant m"

definition subtract_minutes :: "int \<Rightarrow> moment \<Rightarrow> moment" where
  "subtract_minutes n m = m\<lparr>m_instant := m_instant m - n * 60000\<rparr>"

definition isSameOrAfter :: "moment \<Rightarrow> moment \<Rightarrow> bool" where
  "isSameOrAfter a b = (m_instant b \<le> m_instant a)"

definition isAfter :: "moment \<Rightarrow> moment \<Rightarrow> bool" where
  "isAfter a b = (m_instant b < m_instant a)"

text \<open>\<open>xs.map(f)\<close> where \<open>f\<close> may throw: the first exception ends the map.\<close>

fun try_map :: "('a \<Rightarrow> js_error + 'b) \<Rightarrow> 'a list \<Rightarrow> js_error + 'b list" where
  "try_map f [] = Inr []"
| "try_map f (x # xs) =
     (case f x of
        Inl e \<Rightarrow> Inl e
      | Inr y \<Rightarrow> (case try_map f xs of Inl e \<Rightarrow> Inl e | Inr ys \<Rightarrow> Inr (y # ys)))"

section \<open>Availability (slotGenerator.ts, slotFiltering.ts)\<close>

text \<open>
  \<open>calculateSlotAvailability(slots, bufferDuration, currentTime?, timezone?)\<close> of the
  generator module. The clock value \<open>moment()\<close> used when \<open>currentTime\<close> is absent is the
  parameter \<open>clock\<close>. An absent or empty \<open>timezone\<close> is falsy, and then no \<open>.tz\<close> call is
  made. The body of the \<open>try\<close> is \<open>gen_availability_try\<close>, the \<open>catch\<close> is in
  \<open>calculateSlotAvailability\<close>.
\<close>

definition opt_tz :: "tz_authority \<Rightarrow> string option \<Rightarrow> moment \<Rightarrow> js_error + moment" where
  "opt_tz A timezone m =
     (case timezone of
        None \<Rightarrow> Inr m
      | Some name \<Rightarrow> if name = [] then Inr m else tz A name m)"

definition gen_availability_slot ::
  "tz_authority \<Rightarrow> int \<Rightarrow> string option \<Rightarrow> moment \<Rightarrow> Slot \<Rightarrow> js_error + Slot" where
  "gen_availability_slot A bufferDur timezone currentMoment slot =
     (case opt_tz A timezone (moment_of (startTime slot)) of
        Inl e \<Rightarrow> Inl e
      | Inr slotStart \<Rightarrow>
          (let availableTime = subtract_minutes bufferDur slotStart
           in Inr (slot\<lparr>isAvailable := isSameOrAfter currentMoment availableTime\<rparr>)))"

definition gen_availability_try ::
  "tz_authority \<Rightarrow> int \<Rightarrow> Slot list \<Rightarrow> int \<Rightarrow> int option \<Rightarrow> string option
     \<Rightarrow> js_error + Slot list" where
  "gen_availability_try A clock slots bufferDur currentTime timezone =
     (let now = (case currentTime of Some t \<Rightarrow> moment_of t | None \<Rightarrow> moment_of clock)
      in case opt_tz A timezone now of
           Inl e \<Rightarrow> Inl e
         | Inr currentMoment \<Rightarrow>
             try_map (gen_availability_slot A bufferDur timezone currentMoment) slots)"

definition calculateSlotAvailability ::
  "tz_authority \<Rightarrow> int \<Rightarrow> Slot list \<Rightarrow> int \<Rightarrow> int option \<Rightarrow> string option \<Rightarrow> Slot list" where
  "calculateSlotAvailability A clock slots bufferDur currentTime timezone =
     (case gen_availability_try A clock slots bufferDur currentTime timezone of
        Inr updatedSlots \<Rightarrow> updatedSlots
      | Inl e \<Rightarrow> map (\<lambda>slot. slot\<lparr>isAvailable := False\<rparr>) slots)"

text \<open>
  \<open>calculateTimezoneAwareAvailability(slots, currentTime, timezone, bufferDuration)\<close> of the
  filtering module: the same, with the second test \<open>slotStart.isAfter(now)\<close>.
\<close>

definition tz_availability_slot ::
  "tz_authority \<Rightarrow> string \<Rightarrow> int \<Rightarrow> moment \<Rightarrow> Slot \<Rightarrow> js_error + Slot" where
  "tz_availability_slot A timezone bufferDur now slot =
     (case tz A timezone (moment_of (startTime slot)) of
        Inl e \<Rightarrow> Inl e
      | Inr slotStart \<Rightarrow>
          (let availableTime = subtract_minutes bufferDur slotStart
           in Inr (slot\<lparr>isAvailable :=
                      isSameOrAfter now availableTime \<and> isAfter slotStart now\<rparr>)))"

definition tz_availability_try ::
  "tz_authority \<Rightarrow> Slot list \<Rightarrow> int \<Rightarrow> string \<Rightarrow> int \<Rightarrow> js_error + Slot list" where
  "tz_availability_try A slots currentTime timezone bufferDur =
     (case tz A timezone (moment_of currentTime) of
        Inl e \<Rightarrow> Inl e
      | Inr now \<Rightarrow> try_map (tz_availability_slot A timezone bufferDur now) slots)"

definition calculateTimezoneAwareAvailability ::
  "tz_authority \<Rightarrow> Slot list \<Rightarrow> int \<Rightarrow> string \<Rightarrow> int \<Rightarrow> Slot list" where
  "calculateTimezoneAwareAvailability A slots currentTime timezone bufferDur =
     (case tz_availability_try A slots currentTime timezone bufferDur of
        Inr updatedSlots \<Rightarrow> updatedSlots
      | Inl e \<Rightarrow> map (\<lambda>slot. slot\<lparr>isAvailable := False\<rparr>) slots)"

section \<open>Re-projection (convertSlotsToTimezone, in both modules)\<close>

definition convert_slot :: "tz_authority \<Rightarrow> string \<Rightarrow> Slot \<Rightarrow> js_error + Slot" where
  "convert_slot A targetTimezone slot =
     (case tz A targetTimezone (moment_of (startTime slot)) of
        Inl e \<Rightarrow> Inl e
      | Inr s \<Rightarrow>
          (case tz A targetTimezone (moment_of (endTime slot)) of
             Inl e \<Rightarrow> Inl e
           | Inr e \<Rightarrow> Inr (slot\<lparr>startTime := toDate s, endTime := toDate e\<rparr>)))"

text \<open>The one of slotFiltering.ts; on an exception the original slots are returned.\<close>

definition convertSlotsToTimezone :: "tz_authority \<Rightarrow> Slot list \<Rightarrow> string \<Rightarrow> Slot list" where
  "convertSlotsToTimezone A slots targetTimezone =
     (case try_map (convert_slot A targetTimezone) slots of
        Inr convertedSlots \<Rightarrow> convertedSlots
      | Inl e \<Rightarrow> slots)"

text \<open>The exported one of slotGenerator.ts, which has the same body.\<close>

definition gen_convertSlotsToTimezone :: "tz_authority \<Rightarrow> Slot list \<Rightarrow> string \<Rightarrow> Slot list" where
  "gen_convertSlotsToTimezone A slots targetTimezone =
     (case try_map (convert_slot A targetTimezone) slots of
        Inr convertedSlots \<Rightarrow> convertedSlots
      | Inl e \<Rightarrow> slots)"

section \<open>JavaScript string helpers\<close>

text \<open>
  \<open>s.split(':')\<close>, and \<open>Number\<close> on a string. \<open>Number\<close> is modelled on strings of ASCII
  digits (the empty string gives 0); every other string is taken to give \<open>NaN\<close>, which is
  \<open>None\<close>. JavaScript reads more strings as numbers (signs, blanks, fractions, exponents
  and radix prefixes: \<open>Number('+9')\<close> is 9); \<open>js_Number\<close> does not follow it there. The
  strings that pass the regular expressions of the validation are strings of digits.
  Arithmetic and comparisons on a \<open>NaN\<close> follow IEEE: the result is \<open>NaN\<close>, respectively
  false.
\<close>

definition is_digit :: "char \<Rightarrow> bool" where
  "is_digit c = (c \<in> set ''0123456789'')"

definition digit_val :: "char \<Rightarrow> int" where
  "digit_val c = int (of_char c) - 48"

definition dec_value :: "string \<Rightarrow> int" where
  "dec_value s = foldl (\<lambda>a c. 10 * a + digit_val c) 0 s"

definition js_Number :: "string \<Rightarrow> int option" where
  "js_Number s = (if list_all is_digit s then Some (dec_value s) else None)"

fun split_on :: "char \<Rightarrow> string \<Rightarrow> string list" where
  "split_on c [] = [[]]"
| "split_on c (x # xs) =
     (if x = c then [] # split_on c xs
      else (case split_on c xs of [] \<Rightarrow> [[x]] | p # ps \<Rightarrow> (x # p) # ps))"

text \<open>\<open>const [h, m] = s.split(':').map(Number)\<close>; a missing part is \<open>undefined\<close>, a \<open>NaN\<close>
  in arithmetic.\<close>

definition hm_parts :: "string \<Rightarrow> int option \<times> int option" where
  "hm_parts s =
     (case map js_Number (split_on (CHR '':'') s) of
        [] \<Rightarrow> (None, None)
      | [h] \<Rightarrow> (h, None)
      | h # m # rest \<Rightarrow> (h, m))"

text \<open>\<open>hour * 60 + minute\<close>.\<close>

definition minutes_of :: "int option \<times> int option \<Rightarrow> int option" where
  "minutes_of hm =
     (case hm of (Some h, Some m) \<Rightarrow> Some (h * 60 + m) | _ \<Rightarrow> None)"

section \<open>The filter pipeline (slotFiltering.ts)\<close>

record SlotFilterOptions =
  o_currentTime :: "int option"
  o_timezone :: "string option"
  o_bufferDuration :: "int option"
  o_startDate :: "string option"
  o_endDate :: "string option"
  o_startTime :: "string option"
  o_endTime :: "string option"
  o_availableOnly :: "bool option"
  o_limit :: "int option"

text \<open>\<open>xs.filter(p)\<close> where \<open>p\<close> may throw.\<close>

fun try_filter :: "('a \<Rightarrow> js_error + bool) \<Rightarrow> 'a list \<Rightarrow> js_error + 'a list" where
  "try_filter p [] = Inr []"
| "try_filter p (x # xs) =
     (case p x of
        Inl e \<Rightarrow> Inl e
      | Inr b \<Rightarrow>
          (case try_filter p xs of
             Inl e \<Rightarrow> Inl e
           | Inr ys \<Rightarrow> Inr (if b then x # ys else ys)))"

text \<open>\<open>m.isBetween(start, end, null, '[]')\<close>: false as soon as a bound is an invalid moment.\<close>

definition isBetween :: "int option \<Rightarrow> int option \<Rightarrow> moment \<Rightarrow> bool" where
  "isBetween start end' m =
     (case (start, end') of
        (Some s, Some e) \<Rightarrow> s \<le> m_instant m \<and> m_instant m \<le> e
      | _ \<Rightarrow> False)"

definition filterSlotsByDateRange ::
  "tz_authority \<Rightarrow> Slot list \<Rightarrow> string \<Rightarrow> string \<Rightarrow> string \<Rightarrow> Slot list" where
  "filterSlotsByDateRange A slots startDate endDate timezone =
     (let start = day_start A timezone startDate;
          end' = day_end A timezone endDate
      in case try_filter
                (\<lambda>slot. case tz A timezone (moment_of (startTime slot)) of
                           Inl e \<Rightarrow> Inl e
                         | Inr slotMoment \<Rightarrow> Inr (isBetween start end' slotMoment))
                slots of
           Inr kept \<Rightarrow> kept
         | Inl e \<Rightarrow> [])"

definition filterSlotsByTimeRange ::
  "tz_authority \<Rightarrow> Slot list \<Rightarrow> string \<Rightarrow> string \<Rightarrow> string \<Rightarrow> Slot list" where
  "filterSlotsByTimeRange A slots startTime' endTime' timezone =
     (let startHM = hm_parts startTime';
          endHM = hm_parts endTime'
      in case try_filter
                (\<lambda>slot. case tz A timezone (moment_of (startTime slot)) of
                           Inl e \<Rightarrow> Inl e
                         | Inr slotMoment \<Rightarrow>
                             (let slotMinutes =
                                    local_hour A timezone (m_instant slotMoment) * 60
                                      + local_minute A timezone (m_instant slotMoment)
                              in Inr (case (minutes_of startHM, minutes_of endHM) of
                                        (Some startMinutes, Some endMinutes) \<Rightarrow>
                                          startMinutes \<le> slotMinutes \<and> slotMinutes < endMinutes
                                      | _ \<Rightarrow> False)))
                slots of
           Inr kept \<Rightarrow> kept
         | Inl e \<Rightarrow> [])"

text \<open>
  \<open>getFilteredSlots(slots, options)\<close>. The defaults of the destructuring are \<open>new Date()\<close>
  (the parameter \<open>clock\<close>), \<open>moment.tz.guess()\<close> (the parameter \<open>guess\<close>), 45 and false.
  A bound of a filter counts when it is truthy: present and not the empty string. The steps
  are those of the source, in its order: limit (step 6) before sort (step 7). The sort of an
  array is stable, as \<open>sort_key\<close> is. Each stage catches its own exceptions, so that the
  outer \<open>catch\<close> has nothing to catch here. Steps 3 to 6 are \<open>date_range_stage\<close>,
  \<open>time_range_stage\<close>, \<open>available_stage\<close> and \<open>limit_stage\<close>.
\<close>

definition date_range_stage ::
  "tz_authority \<Rightarrow> SlotFilterOptions \<Rightarrow> string \<Rightarrow> Slot list \<Rightarrow> Slot list" where
  "date_range_stage A options timezone filteredSlots =
     (case (o_startDate options, o_endDate options) of
        (Some sd, Some ed) \<Rightarrow>
          if sd \<noteq> [] \<and> ed \<noteq> [] then filterSlotsByDateRange A filteredSlots sd ed timezone
          else filteredSlots
      | _ \<Rightarrow> filteredSlots)"

definition time_range_stage ::
  "tz_authority \<Rightarrow> SlotFilterOptions \<Rightarrow> string \<Rightarrow> Slot list \<Rightarrow> Slot list" where
  "time_range_stage A options timezone filteredSlots =
     (case (o_startTime options, o_endTime options) of
        (Some st, Some et) \<Rightarrow>
          if st \<noteq> [] \<and> et \<noteq> [] then filterSlotsByTimeRange A filteredSlots st et timezone
          else filteredSlots
      | _ \<Rightarrow> filteredSlots)"

definition available_stage :: "SlotFilterOptions \<Rightarrow> Slot list \<Rightarrow> Slot list" where
  "available_stage options filteredSlots =
     (let availableOnly = (case o_availableOnly options of Some b \<Rightarrow> b | None \<Rightarrow> False)
      in if availableOnly then filter isAvailable filteredSlots else filteredSlots)"

definition limit_stage :: "SlotFilterOptions \<Rightarrow> Slot list \<Rightarrow> Slot list" where
  "limit_stage options filteredSlots =
     (case o_limit options of
        Some n \<Rightarrow> if n \<noteq> 0 \<and> 0 < n then take (nat n) filteredSlots else filteredSlots
      | None \<Rightarrow> filteredSlots)"

definition getFilteredSlots ::
  "tz_authority \<Rightarrow> int \<Rightarrow> string \<Rightarrow> Slot list \<Rightarrow> SlotFilterOptions \<Rightarrow> Slot list" where
  "getFilteredSlots A clock guess slots options =
     (let currentTime = (case o_currentTime options of Some t \<Rightarrow> t | None \<Rightarrow> clock);
          timezone = (case o_timezone options of Some z \<Rightarrow> z | None \<Rightarrow> guess);
          bufferDur = (case o_bufferDuration options of Some b \<Rightarrow> b | None \<Rightarrow> 45);
          s1 = convertSlotsToTimezone A slots timezone;
          s2 = calculateTimezoneAwareAvailability A s1 currentTime timezone bufferDur;
          s3 = date_range_stage A options timezone s2;
          s4 = time_range_stage A options timezone s3;
          s5 = available_stage options s4;
          s6 = limit_stage options s5
      in sort_key startTime s6)"

text \<open>\<open>getNextAvailableSlots(slots, count, timezone, bufferDuration, currentTime)\<close>.\<close>

definition getNextAvailableSlots ::
  "tz_authority \<Rightarrow> int \<Rightarrow> string \<Rightarrow> Slot list \<Rightarrow> int \<Rightarrow> string \<Rightarrow> int \<Rightarrow> int \<Rightarrow> Slot list" where
  "getNextAvailableSlots A clock guess slots count timezone bufferDur currentTime =
     getFilteredSlots A clock guess slots
       \<lparr>o_currentTime = Some currentTime, o_timezone = Some timezone,
        o_bufferDuration = Some bufferDur, o_startDate = None, o_endDate = None,
        o_startTime = None, o_endTime = None, o_availableOnly = Some True,
        o_limit = Some count\<rparr>"

section \<open>Validation just before generation (validateSlotConfig, slotGenerator.ts)\<close>

text \<open>
  The two regular expressions \<open>/^\d{4}-\d{2}-\d{2}$/\<close> and \<open>/^\d{2}:\d{2}$/\<close>. Without
  the multiline flag \<open>$\<close> matches at the end of the input only.
\<close>

definition dateRegex_test :: "string \<Rightarrow> bool" where
  "dateRegex_test s =
     (case s of
        [y1, y2, y3, y4, a, m1, m2, b, d1, d2] \<Rightarrow>
          list_all is_digit [y1, y2, y3, y4, m1, m2, d1, d2] \<and> a = CHR ''-'' \<and> b = CHR ''-''
      | _ \<Rightarrow> False)"

definition timeRegex_test :: "string \<Rightarrow> bool" where
  "timeRegex_test s =
     (case s of
        [h1, h2, a, m1, m2] \<Rightarrow> list_all is_digit [h1, h2, m1, m2] \<and> a = CHR '':''
      | _ \<Rightarrow> False)"

text \<open>
  \<open>validateSlotConfig(config)\<close>: \<open>Inl\<close> is the thrown error, \<open>Inr ()\<close> the normal return.
  A comparison with a \<open>NaN\<close> operand is false, so it does not throw.
\<close>

definition validateSlotConfig :: "tz_authority \<Rightarrow> SlotConfig \<Rightarrow> js_error + unit" where
  "validateSlotConfig A config =
     (if c_startDate config = [] \<or> c_endDate config = [] then
        Inl (Error ''Start date and end date are required'')
      else if c_startTime config = [] \<or> c_endTime config = [] then
        Inl (Error ''Start time and end time are required'')
      else if c_timeZone config = [] then
        Inl (Error ''Timezone is required'')
      else if \<not> dateRegex_test (c_startDate config) \<or> \<not> dateRegex_test (c_endDate config) then
        Inl (Error ''Dates must be in YYYY-MM-DD format'')
      else if \<not> timeRegex_test (c_startTime config) \<or> \<not> timeRegex_test (c_endTime config) then
        Inl (Error ''Times must be in HH:mm format'')
      else if slotDuration config \<le> 0 then
        Inl (Error ''Slot duration must be greater than 0'')
      else if breakDuration config < 0 then
        Inl (Error ''Break duration cannot be negative'')
      else if bufferDuration config < 0 then
        Inl (Error ''Buffer duration cannot be negative'')
      else if \<not> zone_exists A (c_timeZone config) then
        Inl (Error (''Invalid timezone: '' @ c_timeZone config))
      else
        (case (minutes_of (hm_parts (c_startTime config)),
               minutes_of (hm_parts (c_endTime config))) of
           (Some startMinutes, Some endMinutes) \<Rightarrow>
             if endMinutes \<le> startMinutes then
               Inl (Error ''End time must be after start time'')
             else if endMinutes - startMinutes < slotDuration config then
               Inl (Error ''Time range must allow for at least one slot'')
             else Inr ()
         | _ \<Rightarrow> Inr ()))"

section \<open>Slot generation (slotGenerator.ts)\<close>

text \<open>\<open>n.toString().padStart(4, '0')\<close> for a counter \<open>n\<close>, which is never negative.\<close>

definition digit_char :: "nat \<Rightarrow> char" where
  "digit_char n = ''0123456789'' ! n"

fun dec_string :: "nat \<Rightarrow> string" where
  "dec_string n =
     (if n < 10 then [digit_char n]
      else dec_string (n div 10) @ [digit_char (n mod 10)])"

declare dec_string.simps [simp del]

definition padStart4 :: "string \<Rightarrow> string" where
  "padStart4 s = replicate (4 - length s) (CHR ''0'') @ s"

definition slot_name :: "int \<Rightarrow> string" where
  "slot_name currentId = ''slot_'' @ padStart4 (dec_string (nat currentId))"

text \<open>
  The inner \<open>while\<close> of \<open>generateDailySlots\<close>: \<open>cur\<close> is \<open>currentSlotStart\<close>, \<open>wend\<close> is
  \<open>workingEnd\<close>, both instants in milliseconds. Nothing in the loop itself makes it end
  (it runs forever when the two durations add up to nothing or less and a slot fits), so
  it is a partial function, and \<open>None\<close> means that it does not return.
\<close>

partial_function (option) slot_loop ::
  "int \<Rightarrow> int \<Rightarrow> int \<Rightarrow> int \<Rightarrow> int \<Rightarrow> Slot list \<Rightarrow> Slot list option" where
  "slot_loop cur wend slotDur breakDur currentId dailySlots =
     (if cur + slotDur * 60000 \<le> wend then
        slot_loop (cur + (slotDur + breakDur) * 60000) wend slotDur breakDur (currentId + 1)
          (dailySlots @
             [\<lparr>id' = slot_name currentId, startTime = cur,
               endTime = cur + slotDur * 60000, isAvailable = True\<rparr>])
      else Some dailySlots)"

declare slot_loop.simps [code]

text \<open>
  \<open>moment.hour(v)\<close> and \<open>.minute(v)\<close> leave the moment as it is when \<open>v\<close> is \<open>NaN\<close>, and
  \<open>date\<close> is a midnight: a \<open>NaN\<close> part counts as 0. \<open>generateDailySlots\<close> is called after
  \<open>validateSlotConfig\<close> only, with times of the shape \<open>dd:dd\<close>, whose two parts are numbers.
  For a time without a \<open>:\<close> the second part is \<open>undefined\<close>, \<open>.minute(undefined)\<close> reads
  the minute instead of setting it and the call chain of the source throws; \<open>part_or_0\<close>
  does not follow the source there.
\<close>

definition part_or_0 :: "int option \<Rightarrow> int" where
  "part_or_0 v = (case v of Some n \<Rightarrow> n | None \<Rightarrow> 0)"

definition workingStart :: "tz_authority \<Rightarrow> int \<Rightarrow> SlotConfig \<Rightarrow> int" where
  "workingStart A date config =
     (case hm_parts (c_startTime config) of
        (startHour, startMinute) \<Rightarrow>
          local_instant A (c_timeZone config) date (part_or_0 startHour) (part_or_0 startMinute))"

definition workingEnd :: "tz_authority \<Rightarrow> int \<Rightarrow> SlotConfig \<Rightarrow> int" where
  "workingEnd A date config =
     (case hm_parts (c_endTime config) of
        (endHour, endMinute) \<Rightarrow>
          local_instant A (c_timeZone config) date (part_or_0 endHour) (part_or_0 endMinute))"

text \<open>\<open>generateDailySlots(date, config, startingId)\<close>; \<open>date\<close> is the calendar day.\<close>

definition generateDailySlots ::
  "tz_authority \<Rightarrow> int \<Rightarrow> SlotConfig \<Rightarrow> int \<Rightarrow> Slot list option" where
  "generateDailySlots A date config startingId =
     (if workingEnd A date config \<le> workingStart A date config then Some []
      else slot_loop (workingStart A date config) (workingEnd A date config)
             (slotDuration config) (breakDuration config) startingId [])"






text \<open>
  \<open>slotsPerDay\<close> of \<open>getSlotGenerationStats(config)\<close>, for a configuration whose times
  parse and whose two durations do not add up to 0: \<open>Math.floor\<close> of the quotient.
\<close>

definition stats_slotsPerDay :: "SlotConfig \<Rightarrow> int option" where
  "stats_slotsPerDay config =
     (case (minutes_of (hm_parts (c_startTime config)),
            minutes_of (hm_parts (c_endTime config))) of
        (Some startMinutes, Some endMinutes) \<Rightarrow>
          if slotDuration config + breakDuration config = 0 then None
          else Some ((endMinutes - startMinutes) div (slotDuration config + breakDuration config))
      | _ \<Rightarrow> None)"

section \<open>Form validation (slotConfigValidationSchema and getFormErrors, utils/validation.ts)\<close>

text \<open>
  Strict parsing, \<open>moment(value, 'YYYY-MM-DD', true)\<close> and \<open>moment(value, 'HH:mm', true)\<close>:
  the string has exactly the shape of the format and the fields are in range. The hour 24
  is accepted with minute 0 only, and denotes the midnight that ends the day.
\<close>

definition leap_year :: "int \<Rightarrow> bool" where
  "leap_year y = (y mod 4 = 0 \<and> (y mod 100 \<noteq> 0 \<or> y mod 400 = 0))"

definition daysInMonth :: "int \<Rightarrow> int \<Rightarrow> int" where
  "daysInMonth y m =
     (if m = 2 then (if leap_year y then 29 else 28)
      else if m = 4 \<or> m = 6 \<or> m = 9 \<or> m = 11 then 30 else 31)"

definition strict_date :: "string \<Rightarrow> (int \<times> int \<times> int) option" where
  "strict_date s =
     (if dateRegex_test s then
        (let y = dec_value (take 4 s); m = dec_value (take 2 (drop 5 s));
             d = dec_value (drop 8 s)
         in if 1 \<le> m \<and> m \<le> 12 \<and> 1 \<le> d \<and> d \<le> daysInMonth y m then Some (y, m, d) else None)
      else None)"

definition strict_time :: "string \<Rightarrow> (int \<times> int) option" where
  "strict_time s =
     (if timeRegex_test s then
        (let h = dec_value (take 2 s); m = dec_value (drop 3 s)
         in if h \<le> 24 \<and> m \<le> 59 \<and> (h < 24 \<or> m = 0) then Some (h, m) else None)
      else None)"

definition isValidDate :: "string \<Rightarrow> bool" where
  "isValidDate v = (v \<noteq> [] \<and> strict_date v \<noteq> None)"

definition isValidTime :: "string \<Rightarrow> bool" where
  "isValidTime v = (v \<noteq> [] \<and> strict_time v \<noteq> None)"

text \<open>\<open>isValidTimezone\<close>: the value is one of \<open>generateTimezoneOptions()\<close>, which has one
  option for each name of \<open>moment.tz.names()\<close>.\<close>

definition isValidTimezone :: "tz_authority \<Rightarrow> string \<Rightarrow> bool" where
  "isValidTimezone A v = (v \<noteq> [] \<and> v \<in> set (zone_names A))"

text \<open>
  What the form tests read from the device: the calendar date of today, and for the times
  of day the instant, in minutes, that \<open>moment(value, 'HH:mm')\<close> gives to \<open>h:m\<close> of today in
  the zone of the device. The forgiving (non-strict) parsers give the strict result on a
  string that parses strictly; what they do with any other string is the parameter
  \<open>forgiving_date\<close>, \<open>forgiving_time\<close>.
\<close>

record form_env =
  today :: "int \<times> int \<times> int"
  today_minute :: "int \<Rightarrow> int \<Rightarrow> int"
  forgiving_date :: "string \<Rightarrow> (int \<times> int \<times> int) option"
  forgiving_time :: "string \<Rightarrow> (int \<times> int) option"

definition moment_date :: "form_env \<Rightarrow> string \<Rightarrow> (int \<times> int \<times> int) option" where
  "moment_date E s = (case strict_date s of Some d \<Rightarrow> Some d | None \<Rightarrow> forgiving_date E s)"

definition moment_time :: "form_env \<Rightarrow> string \<Rightarrow> int option" where
  "moment_time E s =
     (case (case strict_time s of Some t \<Rightarrow> Some t | None \<Rightarrow> forgiving_time E s) of
        Some (h, m) \<Rightarrow> Some (today_minute E h m)
      | None \<Rightarrow> None)"

text \<open>Calendar dates in their order (the order of their midnights).\<close>

definition ymd_le :: "int \<times> int \<times> int \<Rightarrow> int \<times> int \<times> int \<Rightarrow> bool" where
  "ymd_le a b =
     (case (a, b) of
        ((y1, m1, d1), (y2, m2, d2)) \<Rightarrow>
          y1 < y2 \<or> (y1 = y2 \<and> (m1 < m2 \<or> (m1 = m2 \<and> d1 \<le> d2))))"

text \<open>
  The schema: every test with the path it belongs to, its message and whether the value
  passes. The numeric fields are whole numbers here, so that \<open>typeError\<close>, \<open>required\<close> and
  \<open>integer\<close> of the three durations always pass and are left out.
\<close>

definition slotConfigValidationSchema ::
  "tz_authority \<Rightarrow> form_env \<Rightarrow> SlotConfig \<Rightarrow> (string \<times> string \<times> bool) list" where
  "slotConfigValidationSchema A E v =
     [(''startDate'', ''Start date is required'', c_startDate v \<noteq> []),
      (''startDate'', ''Please enter a valid date'', isValidDate (c_startDate v)),
      (''startDate'', ''Start date cannot be in the past'',
         c_startDate v \<noteq> [] \<and>
         (case moment_date E (c_startDate v) of
            Some inputDate \<Rightarrow> ymd_le (today E) inputDate
          | None \<Rightarrow> False)),
      (''endDate'', ''End date is required'', c_endDate v \<noteq> []),
      (''endDate'', ''Please enter a valid date'', isValidDate (c_endDate v)),
      (''endDate'', ''End date must be same as or after start date'',
         c_endDate v \<noteq> [] \<and> c_startDate v \<noteq> [] \<and>
         (case (moment_date E (c_startDate v), moment_date E (c_endDate v)) of
            (Some start, Some end') \<Rightarrow> ymd_le start end'
          | _ \<Rightarrow> False)),
      (''startTime'', ''Start time is required'', c_startTime v \<noteq> []),
      (''startTime'', ''Please enter a valid time (HH:mm)'', isValidTime (c_startTime v)),
      (''startTime'', ''Time must be between 00:00 and 23:59'',
         c_startTime v \<noteq> [] \<and>
         (case moment_time E (c_startTime v) of
            Some t \<Rightarrow> today_minute E 0 0 \<le> t \<and> t \<le> today_minute E 23 59
          | None \<Rightarrow> False)),
      (''endTime'', ''End time is required'', c_endTime v \<noteq> []),
      (''endTime'', ''Please enter a valid time (HH:mm)'', isValidTime (c_endTime v)),
      (''endTime'', ''End time must be after start time'',
         c_endTime v \<noteq> [] \<and> c_startTime v \<noteq> [] \<and>
         (case (moment_time E (c_startTime v), moment_time E (c_endTime v)) of
            (Some start, Some end') \<Rightarrow> start < end'
          | _ \<Rightarrow> False)),
      (''endTime'', ''Time range must allow for at least one slot'',
         c_endTime v \<noteq> [] \<and> c_startTime v \<noteq> [] \<and> slotDuration v \<noteq> 0 \<and>
         (case (moment_time E (c_startTime v), moment_time E (c_endTime v)) of
            (Some start, Some end') \<Rightarrow> slotDuration v \<le> end' - start
          | _ \<Rightarrow> False)),
      (''timeZone'', ''Timezone is required'', c_timeZone v \<noteq> []),
      (''timeZone'', ''Please select a valid timezone'', isValidTimezone A (c_timeZone v)),
      (''slotDuration'', ''Slot duration must be at least 5 minutes'', 5 \<le> slotDuration v),
      (''slotDuration'', ''Slot duration cannot exceed 8 hours (480 minutes)'',
         slotDuration v \<le> 480),
      (''slotDuration'', ''Slot duration must be greater than 0'', 0 < slotDuration v),
      (''breakDuration'', ''Break duration cannot be negative'', 0 \<le> breakDuration v),
      (''breakDuration'', ''Break duration cannot exceed 2 hours (120 minutes)'',
         breakDuration v \<le> 120),
      (''breakDuration'', ''Break duration must be 0 or greater'', 0 \<le> breakDuration v),
      (''bufferDuration'', ''Buffer duration cannot be negative'', 0 \<le> bufferDuration v),
      (''bufferDuration'', ''Buffer duration cannot exceed 24 hours (1440 minutes)'',
         bufferDuration v \<le> 1440),
      (''bufferDuration'', ''Buffer duration must be 0 or greater'', 0 \<le> bufferDuration v)]"

text \<open>\<open>error.inner\<close> of \<open>validate(values, {abortEarly: false})\<close>: one entry for each failed
  test.\<close>

definition inner_errors ::
  "tz_authority \<Rightarrow> form_env \<Rightarrow> SlotConfig \<Rightarrow> (string \<times> string) list" where
  "inner_errors A E v =
     map (\<lambda>(path, message, ok). (path, message))
       (filter (\<lambda>(path, message, ok). \<not> ok) (slotConfigValidationSchema A E v))"

text \<open>\<open>errors[path] = message\<close> on an object, as a list of its entries.\<close>

fun obj_set :: "string \<Rightarrow> 'v \<Rightarrow> (string \<times> 'v) list \<Rightarrow> (string \<times> 'v) list" where
  "obj_set k v [] = [(k, v)]"
| "obj_set k v ((k', v') # r) =
     (if k = k' then (k, v) # r else (k', v') # obj_set k v r)"

text \<open>\<open>getFormErrors(values)\<close>: the empty object when nothing fails.\<close>

definition getFormErrors ::
  "tz_authority \<Rightarrow> form_env \<Rightarrow> SlotConfig \<Rightarrow> (string \<times> string) list" where
  "getFormErrors A E values =
     foldl (\<lambda>errors (path, message). obj_set path message errors) [] (inner_errors A E values)"

section \<open>Persistence (utils/storage.ts)\<close>

text \<open>
  JSON values; numbers are whole numbers here. A stored string is known by what
  \<open>JSON.parse\<close> makes of it: a SyntaxError (\<open>Corrupt\<close>) or a value (\<open>Parsed\<close>), and
  \<open>JSON.stringify\<close> of a value is a string that parses back to it. The entries of an
  object have distinct keys.
\<close>

datatype json =
    JNull
  | JBool bool
  | JNum int
  | JStr string
  | JArr "json list"
  | JObj "(string \<times> json) list"

datatype blob = Corrupt | Parsed json

text \<open>
  AsyncStorage, the key-value store: its items, and \<open>fault\<close>, the message of the error
  with which every operation of a failing store rejects (\<open>None\<close> for a working store).
\<close>

record AsyncStorage =
  items :: "string \<Rightarrow> blob option"
  fault :: "string option"

definition SLOT_CONFIG :: string where
  "SLOT_CONFIG = ''@vosita_slots_app_v2:slot_config''"

definition GENERATED_SLOTS :: string where
  "GENERATED_SLOTS = ''@vosita_slots_app_v2:generated_slots''"

text \<open>\<open>StorageManager.setItem\<close> and \<open>StorageManager.getItem\<close>; \<open>Inr None\<close> is \<open>null\<close>.\<close>

definition setItem :: "AsyncStorage \<Rightarrow> string \<Rightarrow> json \<Rightarrow> js_error + AsyncStorage" where
  "setItem S key v =
     (case fault S of
        Some m \<Rightarrow> Inl (Error (''Failed to save data: '' @ m))
      | None \<Rightarrow> Inr (S\<lparr>items := (items S)(key \<mapsto> Parsed v)\<rparr>))"

definition getItem :: "AsyncStorage \<Rightarrow> string \<Rightarrow> js_error + json option" where
  "getItem S key =
     (case fault S of
        Some m \<Rightarrow> Inl (Error (''Failed to retrieve data: '' @ m))
      | None \<Rightarrow>
          (case items S key of
             None \<Rightarrow> Inr None
           | Some Corrupt \<Rightarrow> Inr None
           | Some (Parsed v) \<Rightarrow> Inr (Some v)))"

text \<open>Truthiness of a value, and \<open>v.name\<close> on a value that is not \<open>null\<close> (\<open>None\<close> is
  \<open>undefined\<close>).\<close>

fun truthy :: "json \<Rightarrow> bool" where
  "truthy JNull = False"
| "truthy (JBool b) = b"
| "truthy (JNum n) = (n \<noteq> 0)"
| "truthy (JStr s) = (s \<noteq> [])"
| "truthy (JArr xs) = True"
| "truthy (JObj kvs) = True"

fun get_field :: "json \<Rightarrow> string \<Rightarrow> json option" where
  "get_field (JObj kvs) name = map_of kvs name"
| "get_field v name = None"

definition truthy_field :: "json \<Rightarrow> string \<Rightarrow> bool" where
  "truthy_field v name = (case get_field v name of Some x \<Rightarrow> truthy x | None \<Rightarrow> False)"

text \<open>
  \<open>loadSlotConfig()\<close>: the \<open>catch\<close> throws the error again. A falsy stored value is returned
  as it is.
\<close>

definition loadSlotConfig :: "AsyncStorage \<Rightarrow> js_error + json option" where
  "loadSlotConfig S =
     (case getItem S SLOT_CONFIG of
        Inl e \<Rightarrow> Inl e
      | Inr None \<Rightarrow> Inr None
      | Inr (Some config) \<Rightarrow>
          if truthy config then
            (if \<not> truthy_field config ''startDate'' \<or> \<not> truthy_field config ''endDate''
                \<or> \<not> truthy_field config ''timeZone''
             then Inr None else Inr (Some config))
          else Inr (Some config))"

text \<open>
  Dates at the boundary: \<open>date.toISOString()\<close> and \<open>new Date(v).getTime()\<close> belong to the
  platform and are parameters. The argument of \<open>new Date\<close> is \<open>None\<close> for \<open>undefined\<close>; the
  result is \<open>None\<close> for an invalid date.
\<close>

record js_platform =
  toISOString :: "int \<Rightarrow> string"
  Date_new :: "json option \<Rightarrow> int option"

text \<open>\<open>saveGeneratedSlots(slots)\<close>: the check of every slot, the serialisation, the write.
  A \<open>Date\<close> object is truthy, so only an empty \<open>id\<close> fails the check.\<close>

definition serialize_slot :: "js_platform \<Rightarrow> Slot \<Rightarrow> json" where
  "serialize_slot P slot =
     JObj [(''id'', JStr (id' slot)),
           (''startTime'', JStr (toISOString P (startTime slot))),
           (''endTime'', JStr (toISOString P (endTime slot))),
           (''isAvailable'', JBool (isAvailable slot))]"

definition saveGeneratedSlots ::
  "js_platform \<Rightarrow> AsyncStorage \<Rightarrow> Slot list \<Rightarrow> js_error + AsyncStorage" where
  "saveGeneratedSlots P S slots =
     (if list_ex (\<lambda>slot. id' slot = []) slots then
        Inl (Error ''Invalid slot object: missing required fields'')
      else setItem S GENERATED_SLOTS (JArr (map (serialize_slot P) slots)))"

text \<open>
  A record as \<open>loadGeneratedSlots\<close> rebuilds it, \<open>{...slot, startTime: new Date(..),
  endTime: new Date(..)}\<close>: the other own properties of the stored value, and the two dates.
  The own properties of a string or an array are its indices.
\<close>

record LoadedSlot =
  l_rest :: "(string \<times> json) list"
  l_startTime :: "int option"
  l_endTime :: "int option"

fun spread :: "json \<Rightarrow> (string \<times> json) list" where
  "spread (JObj kvs) = kvs"
| "spread (JArr xs) = zip (map dec_string [0..<length xs]) xs"
| "spread (JStr s) = zip (map dec_string [0..<length s]) (map (\<lambda>c. JStr [c]) s)"
| "spread v = []"

definition rebuilt :: "js_platform \<Rightarrow> json \<Rightarrow> LoadedSlot" where
  "rebuilt P slot =
     \<lparr>l_rest = filter (\<lambda>(k, v). k \<noteq> ''startTime'' \<and> k \<noteq> ''endTime'') (spread slot),
      l_startTime = Date_new P (get_field slot ''startTime''),
      l_endTime = Date_new P (get_field slot ''endTime'')\<rparr>"

text \<open>Reading a property of \<open>null\<close> throws.\<close>

definition rebuild_slot :: "js_platform \<Rightarrow> json \<Rightarrow> js_error + LoadedSlot" where
  "rebuild_slot P slot =
     (if slot = JNull then Inl (TypeError ''Cannot read properties of null'')
      else Inr (rebuilt P slot))"

definition loaded_isValid :: "LoadedSlot \<Rightarrow> bool" where
  "loaded_isValid slot =
     ((case map_of (l_rest slot) ''id'' of Some i \<Rightarrow> truthy i | None \<Rightarrow> False)
      \<and> l_startTime slot \<noteq> None \<and> l_endTime slot \<noteq> None)"

definition loadGeneratedSlots_try ::
  "js_platform \<Rightarrow> AsyncStorage \<Rightarrow> js_error + LoadedSlot list" where
  "loadGeneratedSlots_try P S =
     (case getItem S GENERATED_SLOTS of
        Inl e \<Rightarrow> Inl e
      | Inr None \<Rightarrow> Inr []
      | Inr (Some (JArr serializedSlots)) \<Rightarrow>
          (case try_map (rebuild_slot P) serializedSlots of
             Inl e \<Rightarrow> Inl e
           | Inr slots \<Rightarrow> Inr (filter loaded_isValid slots))
      | Inr (Some other) \<Rightarrow> Inr [])"

text \<open>\<open>loadGeneratedSlots()\<close>: the \<open>catch\<close> returns the empty array for every error.\<close>

definition loadGeneratedSlots :: "js_platform \<Rightarrow> AsyncStorage \<Rightarrow> js_error + LoadedSlot list" where
  "loadGeneratedSlots P S =
     (case loadGeneratedSlots_try P S of
        Inl e \<Rightarrow> Inr []
      | Inr validSlots \<Rightarrow> Inr validSlots)"

text \<open>The platform reads the two dates of a slot back from what it writes for them.\<close>

definition iso_round_trip :: "js_platform \<Rightarrow> Slot \<Rightarrow> bool" where
  "iso_round_trip P slot =
     (Date_new P (Some (JStr (toISOString P (startTime slot)))) = Some (startTime slot) \<and>
      Date_new P (Some (JStr (toISOString P (endTime slot)))) = Some (endTime slot))"

text \<open>A rebuilt record read as a \<open>Slot\<close>, when its fields have the types of one.\<close>

definition as_Slot :: "LoadedSlot \<Rightarrow> Slot option" where
  "as_Slot l =
     (case (map_of (l_rest l) ''id'', l_startTime l, l_endTime l,
            map_of (l_rest l) ''isAvailable'') of
        (Some (JStr i), Some s, Some e, Some (JBool a)) \<Rightarrow>
          Some \<lparr>id' = i, startTime = s, endTime = e, isAvailable = a\<rparr>
      | _ \<Rightarrow> None)"

section \<open>The generation call (handleGenerateSlots of useSlotsGenerationLogic)\<close>







section \<open>A fixed-offset authority, device and platform for the examples\<close>

text \<open>
  \<open>utc_authority\<close> renders every zone as UTC: the day number counts the days since
  1970-01-01, a day has 86400000 milliseconds, and a date string denotes a day when it
  parses strictly. It knows two names and never throws. \<open>strict_authority\<close> is the same
  authority, except that \<open>.tz(name)\<close> throws for a name it does not know.
\<close>

definition days_from_civil :: "int \<times> int \<times> int \<Rightarrow> int" where
  "days_from_civil ymd =
     (case ymd of
        (y, m, d) \<Rightarrow>
          (let y' = (if m \<le> 2 then y - 1 else y);
               era = y' div 400;
               yoe = y' - era * 400;
               doy = (153 * ((m + 9) mod 12) + 2) div 5 + d - 1;
               doe = yoe * 365 + yoe div 4 - yoe div 100 + doy
           in era * 146097 + doe - 719468))"

definition utc_authority :: tz_authority where
  "utc_authority =
     \<lparr>tz_raises = (\<lambda>name. False),
      zone_exists = (\<lambda>name. name \<in> set [''UTC'', ''America/New_York'']),
      zone_names = [''America/New_York'', ''UTC''],
      parse_day = (\<lambda>zone s. map_option days_from_civil (strict_date s)),
      local_instant = (\<lambda>zone d h m. d * 86400000 + (h * 60 + m) * 60000),
      day_start = (\<lambda>zone s. map_option (\<lambda>ymd. days_from_civil ymd * 86400000) (strict_date s)),
      day_end =
        (\<lambda>zone s. map_option (\<lambda>ymd. days_from_civil ymd * 86400000 + 86399999) (strict_date s)),
      local_hour = (\<lambda>zone t. (t div 3600000) mod 24),
      local_minute = (\<lambda>zone t. (t div 60000) mod 60)\<rparr>"

definition strict_authority :: tz_authority where
  "strict_authority = utc_authority\<lparr>tz_raises := (\<lambda>name. \<not> zone_exists utc_authority name)\<rparr>"

text \<open>A device on 2025-01-01, a day on which its zone has no clock change.\<close>

definition plain_day :: form_env where
  "plain_day =
     \<lparr>today = (2025, 1, 1),
      today_minute = (\<lambda>h m. h * 60 + m),
      forgiving_date = (\<lambda>s. None),
      forgiving_time = (\<lambda>s. None)\<rparr>"

text \<open>The documented default configuration, from 2025-04-25 to 2025-04-30.\<close>

definition default_config :: SlotConfig where
  "default_config =
     \<lparr>c_startDate = ''2025-04-25'', c_endDate = ''2025-04-30'',
      c_startTime = ''10:00'', c_endTime = ''18:00'',
      c_timeZone = ''America/New_York'',
      slotDuration = 30, breakDuration = 15, bufferDuration = 45\<rparr>"

text \<open>
  A platform for the examples, which writes an instant as its decimal digits after a
  \<open>T\<close> and reads such a string back; any other value is an invalid date.
\<close>

definition test_platform :: js_platform where
  "test_platform =
     \<lparr>toISOString = (\<lambda>t. CHR ''T'' # dec_string (nat t)),
      Date_new =
        (\<lambda>v. case v of
                Some (JStr (c # ds)) \<Rightarrow>
                  if c = CHR ''T'' \<and> ds \<noteq> [] \<and> list_all is_digit ds then Some (dec_value ds)
                  else None
              | _ \<Rightarrow> None)\<rparr>"

definition empty_store :: AsyncStorage where
  "empty_store = \<lparr>items = (\<lambda>key. None), fault = None\<rparr>"



text \<open>
  A device on 2025-03-09 in a zone whose clocks go forward from 02:00 to 03:00 on that
  day: a time of day from 03:00 on is reached an hour earlier, and a time of the missing
  hour is moved forward by the hour.
\<close>

definition clock_change_day :: form_env where
  "clock_change_day =
     plain_day
       \<lparr>today := (2025, 3, 9),
        today_minute := (\<lambda>h m. if 180 \<le> h * 60 + m then h * 60 + m - 60 else h * 60 + m)\<rparr>"

text \<open>
  Stores for the examples: one that fails, one whose slot collection is not JSON, one
  whose configuration is not JSON, and one with a collection of three records, of which the
  second has a start that is no date and the third has no end.
\<close>

definition failing_store :: AsyncStorage where
  "failing_store = \<lparr>items = (\<lambda>key. None), fault = Some ''storage unavailable''\<rparr>"

definition corrupt_slots_store :: AsyncStorage where
  "corrupt_slots_store =
     \<lparr>items = (\<lambda>key. if key = GENERATED_SLOTS then Some Corrupt else None), fault = None\<rparr>"

definition corrupt_config_store :: AsyncStorage where
  "corrupt_config_store =
     \<lparr>items = (\<lambda>key. if key = SLOT_CONFIG then Some Corrupt else None), fault = None\<rparr>"

definition mixed_records :: "json list" where
  "mixed_records =
     [JObj [(''id'', JStr ''slot_0001''), (''startTime'', JStr ''T3600000''),
            (''endTime'', JStr ''T5400000''), (''isAvailable'', JBool True)],
      JObj [(''id'', JStr ''slot_0002''), (''startTime'', JStr ''tomorrow''),
            (''endTime'', JStr ''T9000000''), (''isAvailable'', JBool True)],
      JObj [(''id'', JStr ''slot_0003''), (''startTime'', JStr ''T10800000'')]]"

definition mixed_store :: AsyncStorage where
  "mixed_store =
     \<lparr>items = (\<lambda>key. if key = GENERATED_SLOTS then Some (Parsed (JArr mixed_records)) else None),
      fault = None\<rparr>"

definition two_slots :: "Slot list" where
  "two_slots =
     [\<lparr>id' = ''slot_0001'', startTime = 3600000, endTime = 5400000, isAvailable = True\<rparr>,
      \<lparr>id' = ''slot_0002'', startTime = 7200000, endTime = 9000000, isAvailable = False\<rparr>]"

definition saved_two :: AsyncStorage where
  "saved_two =
     empty_store
       \<lparr>items := (items empty_store)
          (GENERATED_SLOTS \<mapsto> Parsed (JArr (map (serialize_slot test_platform) two_slots)))\<rparr>"

text \<open>
  Filter options with \<open>startDate = '2025-04-25'\<close> and \<open>startTime = '09:00'\<close>, each
  without its end bound.
\<close>

definition lone_bounds :: SlotFilterOptions where
  "lone_bounds =
     \<lparr>o_currentTime = Some 0, o_timezone = Some ''UTC'', o_bufferDuration = None,
      o_startDate = Some ''2025-04-25'', o_endDate = None,
      o_startTime = Some ''09:00'', o_endTime = None,
      o_availableOnly = None, o_limit = None\<rparr>"

text \<open>Filter options with both bounds of each pair, for 2025-04-25, 09:00 to 17:00.\<close>

definition full_bounds :: SlotFilterOptions where
  "full_bounds =
     \<lparr>o_currentTime = Some 0, o_timezone = Some ''UTC'', o_bufferDuration = None,
      o_startDate = Some ''2025-04-25'', o_endDate = Some ''2025-04-25'',
      o_startTime = Some ''09:00'', o_endTime = Some ''17:00'',
      o_availableOnly = None, o_limit = None\<rparr>"

section \<open>Shared lemmas\<close>

lemma try_map_Inr:
  "(\<And>x. x \<in> set xs \<Longrightarrow> f x = Inr (g x)) \<Longrightarrow> try_map f xs = Inr (map g xs)"
  by (induction xs) auto

lemma tz_ok:
  "name \<noteq> [] \<Longrightarrow> \<not> tz_raises A name \<Longrightarrow> tz A name m = Inr (m\<lparr>m_zone := Some name\<rparr>)"
  by (simp add: tz_def)

lemma step_div: "0 < (P::int) \<Longrightarrow> (x - P) div P + 1 = x div P"
proof -
  assume P: "0 < P"
  have "(x - P) div P = (x + (-1) * P) div P" by simp
  also have "\<dots> = x div P + (-1)" using P by (subst div_mult_self1) auto
  finally show ?thesis by simp
qed

text \<open>
  The inner loop returns as soon as the two durations add up to more than nothing, and
  the number of slots it appends is known.
\<close>

lemma slot_loop_returns:
  assumes "0 < slotDur + breakDur"
  shows "\<exists>ys. slot_loop cur wend slotDur breakDur k acc = Some (acc @ ys) \<and>
           int (length ys) =
             max 0 ((wend - cur - slotDur * 60000) div ((slotDur + breakDur) * 60000) + 1)"
proof (induction "nat (wend - cur - slotDur * 60000 + 1)" arbitrary: cur k acc rule: less_induct)
  case less
  define P where "P = (slotDur + breakDur) * 60000"
  define x where "x = wend - cur - slotDur * 60000"
  have P: "0 < P" using assms by (simp add: P_def)
  show ?case
  proof (cases "cur + slotDur * 60000 \<le> wend")
    case False
    then have "x < 0" by (simp add: x_def)
    then have "x div P < 0" using P by (simp add: div_neg_pos_less0)
    then have m: "max 0 (x div P + 1) = 0" by simp
    have "slot_loop cur wend slotDur breakDur k acc = Some (acc @ [])"
      using False by (subst slot_loop.simps) simp
    with m show ?thesis unfolding x_def P_def
      by (intro exI[of _ "[]"]) simp
  next
    case True
    then have x: "0 \<le> x" by (simp add: x_def)
    define s where "s = \<lparr>id' = slot_name k, startTime = cur, endTime = cur + slotDur * 60000,
               isAvailable = True\<rparr>"
    have "nat (wend - (cur + P) - slotDur * 60000 + 1) < nat (wend - cur - slotDur * 60000 + 1)"
      using x P unfolding x_def by linarith
    from less[OF this[unfolded P_def], of "k + 1" "acc @ [s]"]
    obtain ys where ys: "slot_loop (cur + P) wend slotDur breakDur (k + 1) (acc @ [s])
                           = Some ((acc @ [s]) @ ys)"
      and len: "int (length ys) = max 0 ((wend - (cur + P) - slotDur * 60000) div P + 1)"
      unfolding P_def by blast
    have eq: "wend - (cur + P) - slotDur * 60000 = x - P" by (simp add: x_def)
    have "(wend - (cur + P) - slotDur * 60000) div P + 1 = x div P"
      unfolding eq by (rule step_div[OF P])
    moreover have "0 \<le> x div P" using x P by (simp add: pos_imp_zdiv_nonneg_iff)
    ultimately have len': "int (length (s # ys)) = max 0 (x div P + 1)"
      using len by simp
    have "slot_loop cur wend slotDur breakDur k acc = Some (acc @ (s # ys))"
      using True ys unfolding s_def P_def by (subst slot_loop.simps) simp
    with len' show ?thesis unfolding x_def P_def by blast
  qed
qed

lemma opt_tz_instant:
  assumes "timezone = None \<or> timezone = Some [] \<or> (\<exists>n. timezone = Some n \<and> \<not> tz_raises A n)"
  shows "\<exists>m'. opt_tz A timezone m = Inr m' \<and> m_instant m' = m_instant m"
  using assms by (auto simp: opt_tz_def tz_def)

text \<open>What the two annotators compute when no \<open>.tz\<close> call throws.\<close>

lemma aware_availability_rule:
  assumes "timezone \<noteq> []" "\<not> tz_raises A timezone"
  shows "calculateTimezoneAwareAvailability A slots currentTime timezone bufferDur =
           map (\<lambda>slot. slot\<lparr>isAvailable :=
                  (startTime slot - bufferDur * 60000 \<le> currentTime
                   \<and> currentTime < startTime slot)\<rparr>) slots"
proof -
  have "try_map (tz_availability_slot A timezone bufferDur
                   ((moment_of currentTime)\<lparr>m_zone := Some timezone\<rparr>)) slots
        = Inr (map (\<lambda>slot. slot\<lparr>isAvailable :=
                  (startTime slot - bufferDur * 60000 \<le> currentTime
                   \<and> currentTime < startTime slot)\<rparr>) slots)"
    by (rule try_map_Inr)
       (simp add: tz_availability_slot_def tz_ok assms subtract_minutes_def isSameOrAfter_def
          isAfter_def moment_of_def)
  then show ?thesis
    by (simp add: calculateTimezoneAwareAvailability_def tz_availability_try_def tz_ok assms)
qed

lemma gen_availability_rule:
  assumes "timezone = None \<or> timezone = Some [] \<or> (\<exists>n. timezone = Some n \<and> \<not> tz_raises A n)"
  shows "calculateSlotAvailability A clock slots bufferDur (Some currentTime) timezone =
           map (\<lambda>slot. slot\<lparr>isAvailable :=
                  (startTime slot - bufferDur * 60000 \<le> currentTime)\<rparr>) slots"
proof -
  obtain now where now: "opt_tz A timezone (moment_of currentTime) = Inr now"
    and inst: "m_instant now = currentTime"
    using opt_tz_instant[OF assms, of "moment_of currentTime"] by (auto simp: moment_of_def)
  have "try_map (gen_availability_slot A bufferDur timezone now) slots
        = Inr (map (\<lambda>slot. slot\<lparr>isAvailable :=
                  (startTime slot - bufferDur * 60000 \<le> currentTime)\<rparr>) slots)"
  proof (rule try_map_Inr)
    fix x :: Slot
    obtain st where "opt_tz A timezone (moment_of (startTime x)) = Inr st"
      and "m_instant st = startTime x"
      using opt_tz_instant[OF assms, of "moment_of (startTime x)"] by (auto simp: moment_of_def)
    then show "gen_availability_slot A bufferDur timezone now x
       = Inr (x\<lparr>isAvailable := (startTime x - bufferDur * 60000 \<le> currentTime)\<rparr>)"
      by (simp add: gen_availability_slot_def subtract_minutes_def isSameOrAfter_def inst)
  qed
  then show ?thesis
    by (simp add: calculateSlotAvailability_def gen_availability_try_def now)
qed

lemma try_map_convert: "try_map (convert_slot A z) slots = Inr ys \<Longrightarrow> ys = slots"
proof (induction slots arbitrary: ys)
  case Nil
  then show ?case by simp
next
  case (Cons s ss)
  then show ?case
    by (auto simp: convert_slot_def tz_def toDate_def moment_of_def split: sum.splits if_splits)
qed

lemma limit_stage_subset: "set (limit_stage options xs) \<subseteq> set xs"
  by (auto simp: limit_stage_def split: option.splits dest: in_set_takeD)

lemma getFilteredSlots_shape:
  "\<exists>xs. getFilteredSlots A clock guess slots options =
          sort_key startTime (limit_stage options (available_stage options xs))"
  unfolding getFilteredSlots_def Let_def by (rule exI) (rule refl)




section \<open>The number of slots of a day\<close>

text \<open>
  Claim C2, as the code has it. For durations as validation leaves them (a positive slot
  duration, a break that is not negative) and a working window of \<open>workingMinutes\<close> minutes
  between \<open>workingStart\<close> and \<open>workingEnd\<close>, \<open>generateDailySlots\<close> returns, and the number
  of its slots is the floor of \<open>(workingMinutes + breakDuration) / (slotDuration +
  breakDuration)\<close>, 0 when that is negative: the last slot of the day needs no break after it.
\<close>

theorem C2_daily_slot_count:
  assumes "0 < slotDuration config" "0 \<le> breakDuration config"
    and "workingEnd A date config - workingStart A date config = workingMinutes * 60000"
  shows "map_option length (generateDailySlots A date config startingId) =
           Some (nat ((workingMinutes + breakDuration config)
                        div (slotDuration config + breakDuration config)))"
proof -
  define s where "s = slotDuration config"
  define b where "b = breakDuration config"
  define ws where "ws = workingStart A date config"
  define we where "we = workingEnd A date config"
  have sb: "0 < s + b" and s: "0 < s" and b: "0 \<le> b"
    using assms(1,2) by (simp_all add: s_def b_def)
  have W: "we - ws = workingMinutes * 60000" using assms(3) by (simp add: ws_def we_def)
  show ?thesis
  proof (cases "we \<le> ws")
    case True
    then have "workingMinutes \<le> 0" using W by simp
    then have "\<not> s + b \<le> workingMinutes + b" using s by simp
    then have "\<not> 0 < (workingMinutes + b) div (s + b)"
      using sb by (simp add: pos_imp_zdiv_pos_iff)
    then show ?thesis using True
      by (simp add: generateDailySlots_def s_def b_def ws_def we_def)
  next
    case False
    from slot_loop_returns[OF sb, of ws we startingId "[]"]
    obtain ys where ys: "slot_loop ws we s b startingId [] = Some ys"
      and len: "int (length ys) = max 0 ((we - ws - s * 60000) div ((s + b) * 60000) + 1)"
      by auto
    have eq: "(we - ws - s * 60000) = (workingMinutes - s) * 60000"
      using W by (simp add: algebra_simps)
    have "(we - ws - s * 60000) div ((s + b) * 60000) = (workingMinutes - s) div (s + b)"
      unfolding eq by (rule div_mult_mult2) simp
    moreover have "(workingMinutes - s) div (s + b) + 1 = (workingMinutes + b) div (s + b)"
      using step_div[OF sb, of "workingMinutes + b"] by (simp add: algebra_simps)
    ultimately have "int (length ys) = max 0 ((workingMinutes + b) div (s + b))"
      using len by simp
    then have "length ys = nat ((workingMinutes + b) div (s + b))" by linarith
    then show ?thesis using False ys
      by (simp add: generateDailySlots_def s_def b_def ws_def we_def)
  qed
qed

text \<open>
  The documented default configuration (10:00 to 18:00, slots of 30 minutes, breaks of 15)
  on 2025-04-25: the window has 480 minutes and the day gets 11 slots, the last one from
  17:30 to 18:00.
\<close>

theorem C2_daily_slot_count_witness:
  "0 < slotDuration default_config \<and> 0 \<le> breakDuration default_config \<and>
   workingEnd utc_authority 20203 default_config
     - workingStart utc_authority 20203 default_config = 480 * 60000 \<and>
   map_option length (generateDailySlots utc_authority 20203 default_config 1) = Some 11"
proof -
  have h1: "0 < slotDuration default_config" by (simp add: default_config_def)
  have h2: "0 \<le> breakDuration default_config" by (simp add: default_config_def)
  have h3: "workingEnd utc_authority 20203 default_config
              - workingStart utc_authority 20203 default_config = 480 * 60000"
    by code_simp
  have "nat ((480 + breakDuration default_config)
          div (slotDuration default_config + breakDuration default_config)) = 11"
    by (simp add: default_config_def)
  with C2_daily_slot_count[OF h1 h2 h3, of 1] h1 h2 h3 show ?thesis by simp
qed

text \<open>
  The count of the claim, the floor of \<open>workingMinutes / (slotDuration + breakDuration)\<close>,
  is what \<open>getSlotGenerationStats\<close> reports as \<open>slotsPerDay\<close>. On the same validated
  configuration it is 10, one less than the 11 slots that are generated.
\<close>

theorem C2_stats_formula_counterexample:
  "validateSlotConfig utc_authority default_config = Inr () \<and>
   workingEnd utc_authority 20203 default_config
     - workingStart utc_authority 20203 default_config = 480 * 60000 \<and>
   map_option length (generateDailySlots utc_authority 20203 default_config 1) = Some 11 \<and>
   nat (480 div (slotDuration default_config + breakDuration default_config)) = 10 \<and>
   stats_slotsPerDay default_config = Some 10"
  by code_simp

section \<open>The availability rule\<close>

text \<open>
  Claim C1 asks of both annotators that a slot is available exactly when the reference
  instant is at or after the start minus the buffer and before the start. The annotator of
  the filter pipeline does that (\<open>aware_availability_rule\<close>); the one of the generator
  module tests the first half only (\<open>gen_availability_rule\<close>). Here the slot starts at
  01:00 and the reference instant is 02:00 of the same day, with a buffer of 45 minutes:
  \<open>calculateSlotAvailability\<close> marks the slot, which started an hour ago, available, and
  \<open>calculateTimezoneAwareAvailability\<close> does not.
\<close>

theorem C1_generator_marks_started_slot_available:
  "calculateSlotAvailability utc_authority 0
     [\<lparr>id' = ''slot_0001'', startTime = 3600000, endTime = 5400000, isAvailable = True\<rparr>]
     45 (Some 7200000) (Some ''UTC'')
   = [\<lparr>id' = ''slot_0001'', startTime = 3600000, endTime = 5400000, isAvailable = True\<rparr>] \<and>
   calculateTimezoneAwareAvailability utc_authority
     [\<lparr>id' = ''slot_0001'', startTime = 3600000, endTime = 5400000, isAvailable = True\<rparr>]
     7200000 ''UTC'' 45
   = [\<lparr>id' = ''slot_0001'', startTime = 3600000, endTime = 5400000, isAvailable = False\<rparr>]"
  by code_simp

section \<open>Limit and order of the filter pipeline\<close>

text \<open>With a positive limit \<open>n\<close> at most \<open>n\<close> slots are returned; with \<open>availableOnly\<close>
  every returned slot is available; the result is sorted by start instant.\<close>

lemma filtered_length_le_limit:
  "o_limit options = Some n \<Longrightarrow> 0 < n
   \<Longrightarrow> length (getFilteredSlots A clock guess slots options) \<le> nat n"
  by (simp add: getFilteredSlots_def limit_stage_def Let_def)

lemma filtered_all_available:
  assumes a: "o_availableOnly options = Some True"
    and s: "s \<in> set (getFilteredSlots A clock guess slots options)"
  shows "isAvailable s"
proof -
  obtain xs where "getFilteredSlots A clock guess slots options =
          sort_key startTime (limit_stage options (available_stage options xs))"
    using getFilteredSlots_shape by blast
  with s have "s \<in> set (limit_stage options (available_stage options xs))" by simp
  then have "s \<in> set (available_stage options xs)" using limit_stage_subset by blast
  then show ?thesis using a by (simp add: available_stage_def)
qed

lemma filtered_sorted:
  "sorted (map startTime (getFilteredSlots A clock guess slots options))"
  by (simp add: getFilteredSlots_def Let_def)

text \<open>
  Claim C4 asks for the first \<open>n\<close> of the surviving slots in ascending order of start.
  The pipeline cuts to the limit before it sorts. Two slots are passed with the later one
  (02:00) first and the earlier one (01:00) second; at the reference instant 00:00 with a
  buffer of 120 minutes both are available. \<open>getNextAvailableSlots\<close> with count 1 returns
  the slot of 02:00, while the first available slot in order of start is the one of 01:00.
\<close>

theorem C4_limit_cuts_before_sort:
  "getNextAvailableSlots utc_authority 0 ''UTC''
     [\<lparr>id' = ''slot_0002'', startTime = 7200000, endTime = 9000000, isAvailable = True\<rparr>,
      \<lparr>id' = ''slot_0001'', startTime = 3600000, endTime = 5400000, isAvailable = True\<rparr>]
     1 ''UTC'' 120 0
   = [\<lparr>id' = ''slot_0002'', startTime = 7200000, endTime = 9000000, isAvailable = True\<rparr>] \<and>
   take 1 (sort_key startTime (filter isAvailable
     (calculateTimezoneAwareAvailability utc_authority
        [\<lparr>id' = ''slot_0002'', startTime = 7200000, endTime = 9000000, isAvailable = True\<rparr>,
         \<lparr>id' = ''slot_0001'', startTime = 3600000, endTime = 5400000, isAvailable = True\<rparr>]
        0 ''UTC'' 120)))
   = [\<lparr>id' = ''slot_0001'', startTime = 3600000, endTime = 5400000, isAvailable = True\<rparr>]"
  by code_simp

section \<open>Re-projection\<close>

text \<open>
  Claim C8. Re-projecting a slot list to a timezone, with either \<open>convertSlotsToTimezone\<close>,
  returns the slots with the same id, availability flag, start instant and end instant, that
  is, the same list of records; so both annotators give the same result before and after it.
  This holds for every timezone name, also when the conversion throws and the original
  slots are returned.
\<close>

theorem C8_reprojection_keeps_slots:
  "convertSlotsToTimezone A slots target = slots \<and>
   gen_convertSlotsToTimezone A slots target = slots \<and>
   calculateTimezoneAwareAvailability A (convertSlotsToTimezone A slots target)
       currentTime timezone bufferDur
     = calculateTimezoneAwareAvailability A slots currentTime timezone bufferDur \<and>
   calculateSlotAvailability A clock (gen_convertSlotsToTimezone A slots target)
       bufferDur now timezone'
     = calculateSlotAvailability A clock slots bufferDur now timezone'"
proof -
  have 1: "convertSlotsToTimezone A slots target = slots"
    by (cases "try_map (convert_slot A target) slots")
       (auto simp: convertSlotsToTimezone_def dest: try_map_convert)
  have 2: "gen_convertSlotsToTimezone A slots target = slots"
    by (cases "try_map (convert_slot A target) slots")
       (auto simp: gen_convertSlotsToTimezone_def dest: try_map_convert)
  show ?thesis by (simp only: 1 2)
qed

theorem C8_reprojection_witness:
  "convertSlotsToTimezone utc_authority
     [\<lparr>id' = ''slot_0001'', startTime = 3600000, endTime = 5400000, isAvailable = True\<rparr>]
     ''America/New_York''
   = [\<lparr>id' = ''slot_0001'', startTime = 3600000, endTime = 5400000, isAvailable = True\<rparr>]"
  using C8_reprojection_keeps_slots [of utc_authority
      "[\<lparr>id' = ''slot_0001'', startTime = 3600000, endTime = 5400000, isAvailable = True\<rparr>]"
      "''America/New_York''"]
  by simp

section \<open>The error path of the annotators\<close>

text \<open>
  Claim C9. Whenever the body of the \<open>try\<close> of an annotator ends in an exception, the
  annotator returns the slots it was given, each with \<open>isAvailable\<close> false.
\<close>

theorem C9_error_path_marks_unavailable:
  "(gen_availability_try A clock slots bufferDur now timezone = Inl e \<longrightarrow>
      calculateSlotAvailability A clock slots bufferDur now timezone
        = map (\<lambda>slot. slot\<lparr>isAvailable := False\<rparr>) slots) \<and>
   (tz_availability_try A slots currentTime timezone' bufferDur' = Inl e' \<longrightarrow>
      calculateTimezoneAwareAvailability A slots currentTime timezone' bufferDur'
        = map (\<lambda>slot. slot\<lparr>isAvailable := False\<rparr>) slots)"
  by (simp add: calculateSlotAvailability_def calculateTimezoneAwareAvailability_def)

text \<open>
  The exception of the pipeline's annotator comes from the \<open>.tz\<close> call, and with it from
  the timezone alone: an empty name, or a name for which the authority throws.
\<close>

lemma aware_availability_fails_iff:
  "(\<exists>e. tz_availability_try A slots currentTime timezone bufferDur = Inl e)
     \<longleftrightarrow> (timezone = [] \<or> tz_raises A timezone)"
proof (cases "timezone = [] \<or> tz_raises A timezone")
  case True
  then show ?thesis by (auto simp: tz_availability_try_def tz_def)
next
  case False
  then have "tz_availability_try A slots currentTime timezone bufferDur =
     Inr (map (\<lambda>slot. slot\<lparr>isAvailable :=
                  (startTime slot - bufferDur * 60000 \<le> currentTime
                   \<and> currentTime < startTime slot)\<rparr>) slots)"
    by (auto simp: tz_availability_try_def tz_ok tz_availability_slot_def subtract_minutes_def
          isSameOrAfter_def isAfter_def moment_of_def intro!: try_map_Inr)
  with False show ?thesis by simp
qed

text \<open>
  Both error paths are taken: by the generator's annotator with a zone for which
  \<open>strict_authority\<close> throws, by the pipeline's annotator with the empty zone name.
\<close>

theorem C9_error_path_witness:
  "gen_availability_try strict_authority 0
      [\<lparr>id' = ''slot_0001'', startTime = 3600000, endTime = 5400000, isAvailable = True\<rparr>]
      45 (Some 0) (Some ''Mars/Olympus'') = Inl (Error ''Time zone failure'') \<and>
   calculateSlotAvailability strict_authority 0
      [\<lparr>id' = ''slot_0001'', startTime = 3600000, endTime = 5400000, isAvailable = True\<rparr>]
      45 (Some 0) (Some ''Mars/Olympus'')
    = [\<lparr>id' = ''slot_0001'', startTime = 3600000, endTime = 5400000, isAvailable = False\<rparr>] \<and>
   tz_availability_try utc_authority
      [\<lparr>id' = ''slot_0001'', startTime = 3600000, endTime = 5400000, isAvailable = True\<rparr>]
      0 [] 45 = Inl (TypeError ''undefined is not an object'') \<and>
   calculateTimezoneAwareAvailability utc_authority
      [\<lparr>id' = ''slot_0001'', startTime = 3600000, endTime = 5400000, isAvailable = True\<rparr>]
      0 [] 45
    = [\<lparr>id' = ''slot_0001'', startTime = 3600000, endTime = 5400000, isAvailable = False\<rparr>]"
proof -
  have g: "gen_availability_try strict_authority 0
      [\<lparr>id' = ''slot_0001'', startTime = 3600000, endTime = 5400000, isAvailable = True\<rparr>]
      45 (Some 0) (Some ''Mars/Olympus'') = Inl (Error ''Time zone failure'')"
    by code_simp
  have t: "tz_availability_try utc_authority
      [\<lparr>id' = ''slot_0001'', startTime = 3600000, endTime = 5400000, isAvailable = True\<rparr>]
      0 [] 45 = Inl (TypeError ''undefined is not an object'')"
    by code_simp
  from C9_error_path_marks_unavailable [where A = strict_authority and clock = 0
      and slots = "[\<lparr>id' = ''slot_0001'', startTime = 3600000, endTime = 5400000,
                     isAvailable = True\<rparr>]"
      and bufferDur = 45 and now = "Some 0" and timezone = "Some ''Mars/Olympus''"
      and e = "Error ''Time zone failure''"]
    C9_error_path_marks_unavailable [where A = utc_authority
      and slots = "[\<lparr>id' = ''slot_0001'', startTime = 3600000, endTime = 5400000,
                     isAvailable = True\<rparr>]"
      and currentTime = 0 and timezone' = "[]" and bufferDur' = 45
      and e' = "TypeError ''undefined is not an object''"]
    g t
  show ?thesis by simp
qed

section \<open>The optional filter stages\<close>

text \<open>
  Claim C10. The date-range stage of \<open>getFilteredSlots\<close> runs the date filter when both
  \<open>startDate\<close> and \<open>endDate\<close> are supplied, and the time-of-day stage runs the time filter when
  both \<open>startTime\<close> and \<open>endTime\<close> are. When a bound of a pair is missing (absent, or the
  empty string), the stage returns the slots it was given, and the pipeline gives the result
  it gives without any bound of that pair.
\<close>

theorem C10_missing_bound_skips_stage:
  "(o_startDate options = Some sd \<and> o_endDate options = Some ed \<and> sd \<noteq> [] \<and> ed \<noteq> [] \<longrightarrow>
      date_range_stage A options timezone filteredSlots
        = filterSlotsByDateRange A filteredSlots sd ed timezone) \<and>
   (o_startTime options = Some st \<and> o_endTime options = Some et \<and> st \<noteq> [] \<and> et \<noteq> [] \<longrightarrow>
      time_range_stage A options timezone filteredSlots
        = filterSlotsByTimeRange A filteredSlots st et timezone) \<and>
   (o_startDate options = None \<or> o_startDate options = Some [] \<or>
    o_endDate options = None \<or> o_endDate options = Some [] \<longrightarrow>
      date_range_stage A options timezone filteredSlots = filteredSlots \<and>
      getFilteredSlots A clock guess slots options
        = getFilteredSlots A clock guess slots (options\<lparr>o_startDate := None, o_endDate := None\<rparr>)) \<and>
   (o_startTime options = None \<or> o_startTime options = Some [] \<or>
    o_endTime options = None \<or> o_endTime options = Some [] \<longrightarrow>
      time_range_stage A options timezone filteredSlots = filteredSlots \<and>
      getFilteredSlots A clock guess slots options
        = getFilteredSlots A clock guess slots (options\<lparr>o_startTime := None, o_endTime := None\<rparr>))"
proof (intro conjI impI)
  assume "o_startDate options = Some sd \<and> o_endDate options = Some ed \<and> sd \<noteq> [] \<and> ed \<noteq> []"
  then show "date_range_stage A options timezone filteredSlots
               = filterSlotsByDateRange A filteredSlots sd ed timezone"
    by (simp add: date_range_stage_def)
next
  assume "o_startTime options = Some st \<and> o_endTime options = Some et \<and> st \<noteq> [] \<and> et \<noteq> []"
  then show "time_range_stage A options timezone filteredSlots
               = filterSlotsByTimeRange A filteredSlots st et timezone"
    by (simp add: time_range_stage_def)
next
  assume a: "o_startDate options = None \<or> o_startDate options = Some [] \<or>
             o_endDate options = None \<or> o_endDate options = Some []"
  have d: "date_range_stage A options tz ss = ss" for tz ss
    using a by (auto simp: date_range_stage_def split: option.splits)
  have d': "date_range_stage A (options\<lparr>o_startDate := None, o_endDate := None\<rparr>) tz ss = ss"
    for tz ss
    by (simp add: date_range_stage_def)
  have t: "time_range_stage A (options\<lparr>o_startDate := None, o_endDate := None\<rparr>) tz ss
             = time_range_stage A options tz ss" for tz ss
    by (simp add: time_range_stage_def)
  show "date_range_stage A options timezone filteredSlots = filteredSlots" by (rule d)
  show "getFilteredSlots A clock guess slots options
          = getFilteredSlots A clock guess slots (options\<lparr>o_startDate := None, o_endDate := None\<rparr>)"
    by (simp add: getFilteredSlots_def d d' t available_stage_def limit_stage_def)
next
  assume a: "o_startTime options = None \<or> o_startTime options = Some [] \<or>
             o_endTime options = None \<or> o_endTime options = Some []"
  have d: "time_range_stage A options tz ss = ss" for tz ss
    using a by (auto simp: time_range_stage_def split: option.splits)
  have d': "time_range_stage A (options\<lparr>o_startTime := None, o_endTime := None\<rparr>) tz ss = ss"
    for tz ss
    by (simp add: time_range_stage_def)
  have t: "date_range_stage A (options\<lparr>o_startTime := None, o_endTime := None\<rparr>) tz ss
             = date_range_stage A options tz ss" for tz ss
    by (simp add: date_range_stage_def)
  show "time_range_stage A options timezone filteredSlots = filteredSlots" by (rule d)
  show "getFilteredSlots A clock guess slots options
          = getFilteredSlots A clock guess slots (options\<lparr>o_startTime := None, o_endTime := None\<rparr>)"
    by (simp add: getFilteredSlots_def d d' t available_stage_def limit_stage_def)
qed

text \<open>
  The options \<open>lone_bounds\<close> applied to a slot of 1970-01-01 at 01:00: both stages let the
  slot pass, although it lies outside of what the bounds describe. With both bounds of each
  pair, in \<open>full_bounds\<close>, each stage filters the slot out.
\<close>

theorem C10_missing_bound_witness:
  "o_endDate lone_bounds = None \<and> o_endTime lone_bounds = None \<and>
   date_range_stage utc_authority lone_bounds ''UTC''
     [\<lparr>id' = ''slot_0001'', startTime = 3600000, endTime = 5400000, isAvailable = False\<rparr>]
    = [\<lparr>id' = ''slot_0001'', startTime = 3600000, endTime = 5400000, isAvailable = False\<rparr>] \<and>
   time_range_stage utc_authority lone_bounds ''UTC''
     [\<lparr>id' = ''slot_0001'', startTime = 3600000, endTime = 5400000, isAvailable = False\<rparr>]
    = [\<lparr>id' = ''slot_0001'', startTime = 3600000, endTime = 5400000, isAvailable = False\<rparr>] \<and>
   date_range_stage utc_authority full_bounds ''UTC''
     [\<lparr>id' = ''slot_0001'', startTime = 3600000, endTime = 5400000, isAvailable = False\<rparr>]
    = [] \<and>
   time_range_stage utc_authority full_bounds ''UTC''
     [\<lparr>id' = ''slot_0001'', startTime = 3600000, endTime = 5400000, isAvailable = False\<rparr>]
    = []"
proof -
  have h: "o_endDate lone_bounds = None" "o_endTime lone_bounds = None"
    by (simp_all add: lone_bounds_def)
  have f: "o_startDate full_bounds = Some ''2025-04-25'' \<and>
           o_endDate full_bounds = Some ''2025-04-25'' \<and> ''2025-04-25'' \<noteq> [] \<and> ''2025-04-25'' \<noteq> []"
    "o_startTime full_bounds = Some ''09:00'' \<and>
     o_endTime full_bounds = Some ''17:00'' \<and> ''09:00'' \<noteq> [] \<and> ''17:00'' \<noteq> []"
    by (simp_all add: full_bounds_def)
  have d: "filterSlotsByDateRange utc_authority
      [\<lparr>id' = ''slot_0001'', startTime = 3600000, endTime = 5400000, isAvailable = False\<rparr>]
      ''2025-04-25'' ''2025-04-25'' ''UTC'' = []"
    by code_simp
  have t: "filterSlotsByTimeRange utc_authority
      [\<lparr>id' = ''slot_0001'', startTime = 3600000, endTime = 5400000, isAvailable = False\<rparr>]
      ''09:00'' ''17:00'' ''UTC'' = []"
    by code_simp
  note skip = C10_missing_bound_skips_stage [where options = lone_bounds and A = utc_authority
      and timezone = "''UTC''"
      and filteredSlots = "[\<lparr>id' = ''slot_0001'', startTime = 3600000, endTime = 5400000,
                             isAvailable = False\<rparr>]"]
  note run = C10_missing_bound_skips_stage [where options = full_bounds and A = utc_authority
      and timezone = "''UTC''" and sd = "''2025-04-25''" and ed = "''2025-04-25''"
      and st = "''09:00''" and et = "''17:00''"
      and filteredSlots = "[\<lparr>id' = ''slot_0001'', startTime = 3600000, endTime = 5400000,
                             isAvailable = False\<rparr>]"]
  from skip h have 1: "date_range_stage utc_authority lone_bounds ''UTC''
     [\<lparr>id' = ''slot_0001'', startTime = 3600000, endTime = 5400000, isAvailable = False\<rparr>]
    = [\<lparr>id' = ''slot_0001'', startTime = 3600000, endTime = 5400000, isAvailable = False\<rparr>]"
    and 2: "time_range_stage utc_authority lone_bounds ''UTC''
     [\<lparr>id' = ''slot_0001'', startTime = 3600000, endTime = 5400000, isAvailable = False\<rparr>]
    = [\<lparr>id' = ''slot_0001'', startTime = 3600000, endTime = 5400000, isAvailable = False\<rparr>]"
    by blast+
  from run f(1) have 3: "date_range_stage utc_authority full_bounds ''UTC''
     [\<lparr>id' = ''slot_0001'', startTime = 3600000, endTime = 5400000, isAvailable = False\<rparr>]
    = filterSlotsByDateRange utc_authority
      [\<lparr>id' = ''slot_0001'', startTime = 3600000, endTime = 5400000, isAvailable = False\<rparr>]
      ''2025-04-25'' ''2025-04-25'' ''UTC''"
    by blast
  from run f(2) have 4: "time_range_stage utc_authority full_bounds ''UTC''
     [\<lparr>id' = ''slot_0001'', startTime = 3600000, endTime = 5400000, isAvailable = False\<rparr>]
    = filterSlotsByTimeRange utc_authority
      [\<lparr>id' = ''slot_0001'', startTime = 3600000, endTime = 5400000, isAvailable = False\<rparr>]
      ''09:00'' ''17:00'' ''UTC''"
    by blast
  show ?thesis using h 1 2 3 4 unfolding d t by blast
qed

section \<open>The two validation paths\<close>

lemma obj_set_nonempty: "obj_set k v acc \<noteq> []"
  by (cases acc) (auto split: if_splits)

lemma foldl_obj_set_nonempty:
  "acc \<noteq> [] \<Longrightarrow> foldl (\<lambda>errors (path, message). obj_set path message errors) acc xs \<noteq> []"
proof (induction xs arbitrary: acc)
  case Nil
  then show ?case by simp
next
  case (Cons x xs)
  obtain p m where x: "x = (p, m)" by (cases x)
  show ?case unfolding x foldl_Cons prod.case
    by (rule Cons.IH) (rule obj_set_nonempty)
qed

lemma getFormErrors_empty_iff: "getFormErrors A E v = [] \<longleftrightarrow> inner_errors A E v = []"
proof (cases "inner_errors A E v")
  case Nil
  then show ?thesis by (simp add: getFormErrors_def)
next
  case (Cons x xs)
  obtain p m where x: "x = (p, m)" by (cases x)
  have "foldl (\<lambda>errors (path, message). obj_set path message errors) (obj_set p m []) xs \<noteq> []"
    by (rule foldl_obj_set_nonempty) (rule obj_set_nonempty)
  then have "getFormErrors A E v \<noteq> []"
    unfolding getFormErrors_def Cons x foldl_Cons prod.case .
  then show ?thesis using Cons by simp
qed

lemma digit_not_colon: "is_digit c \<Longrightarrow> c \<noteq> CHR '':''"
  by (auto simp: is_digit_def)

lemma timeRegex_shape:
  assumes "timeRegex_test s"
  obtains h1 h2 m1 m2 where "s = [h1, h2, CHR '':'', m1, m2]"
    "is_digit h1" "is_digit h2" "is_digit m1" "is_digit m2"
  using assms by (auto simp: timeRegex_test_def split: list.splits)

lemma timeRegex_hm:
  assumes "timeRegex_test s"
  shows "hm_parts s = (Some (dec_value (take 2 s)), Some (dec_value (drop 3 s)))"
proof -
  from assms obtain h1 h2 m1 m2 where s: "s = [h1, h2, CHR '':'', m1, m2]"
    and d: "is_digit h1" "is_digit h2" "is_digit m1" "is_digit m2"
    by (rule timeRegex_shape)
  have "split_on (CHR '':'') s = [[h1, h2], [m1, m2]]"
    using d by (simp add: s digit_not_colon)
  then show ?thesis using d by (simp add: hm_parts_def js_Number_def s)
qed


lemma inner_errors_empty_iff:
  "inner_errors A E v = [] \<longleftrightarrow>
     list_all (\<lambda>ok. ok) (map (\<lambda>(path, message, ok). ok) (slotConfigValidationSchema A E v))"
  by (auto simp: inner_errors_def filter_empty_conv list_all_iff)

lemma strict_time_parts:
  assumes "isValidTime s"
  shows "timeRegex_test s \<and> strict_time s = Some (dec_value (take 2 s), dec_value (drop 3 s))"
proof -
  from assms have ne: "strict_time s \<noteq> None" by (simp add: isValidTime_def)
  have r: "timeRegex_test s"
  proof (rule ccontr)
    assume "\<not> timeRegex_test s"
    then have "strict_time s = None" unfolding strict_time_def by (rule if_not_P)
    with ne show False by simp
  qed
  define h where "h = dec_value (take 2 s)"
  define m where "m = dec_value (drop 3 s)"
  have eq: "strict_time s = (if h \<le> 24 \<and> m \<le> 59 \<and> (h < 24 \<or> m = 0) then Some (h, m) else None)"
    unfolding strict_time_def Let_def h_def m_def using r by (rule if_P)
  have "strict_time s = Some (h, m)"
  proof (cases "h \<le> 24 \<and> m \<le> 59 \<and> (h < 24 \<or> m = 0)")
    case True
    show ?thesis unfolding eq using True by (rule if_P)
  next
    case False
    have "strict_time s = None" unfolding eq using False by (rule if_not_P)
    with ne show ?thesis by simp
  qed
  with r show ?thesis by (simp add: h_def m_def)
qed

lemma strict_date_regex:
  assumes "isValidDate s"
  shows "dateRegex_test s"
proof (rule ccontr)
  assume "\<not> dateRegex_test s"
  then have "strict_date s = None" unfolding strict_date_def by (rule if_not_P)
  with assms show False by (simp add: isValidDate_def)
qed


lemma schema_oks:
  "map (\<lambda>(path, message, ok). ok) (slotConfigValidationSchema A E v) =
     [c_startDate v \<noteq> [], isValidDate (c_startDate v),
      c_startDate v \<noteq> [] \<and>
         (case moment_date E (c_startDate v) of
            Some inputDate \<Rightarrow> ymd_le (today E) inputDate
          | None \<Rightarrow> False),
      c_endDate v \<noteq> [], isValidDate (c_endDate v),
      c_endDate v \<noteq> [] \<and> c_startDate v \<noteq> [] \<and>
         (case (moment_date E (c_startDate v), moment_date E (c_endDate v)) of
            (Some start, Some end') \<Rightarrow> ymd_le start end'
          | _ \<Rightarrow> False),
      c_startTime v \<noteq> [], isValidTime (c_startTime v),
      c_startTime v \<noteq> [] \<and>
         (case moment_time E (c_startTime v) of
            Some t \<Rightarrow> today_minute E 0 0 \<le> t \<and> t \<le> today_minute E 23 59
          | None \<Rightarrow> False),
      c_endTime v \<noteq> [], isValidTime (c_endTime v),
      c_endTime v \<noteq> [] \<and> c_startTime v \<noteq> [] \<and>
         (case (moment_time E (c_startTime v), moment_time E (c_endTime v)) of
            (Some start, Some end') \<Rightarrow> start < end'
          | _ \<Rightarrow> False),
      c_endTime v \<noteq> [] \<and> c_startTime v \<noteq> [] \<and> slotDuration v \<noteq> 0 \<and>
         (case (moment_time E (c_startTime v), moment_time E (c_endTime v)) of
            (Some start, Some end') \<Rightarrow> slotDuration v \<le> end' - start
          | _ \<Rightarrow> False),
      c_timeZone v \<noteq> [], isValidTimezone A (c_timeZone v),
      5 \<le> slotDuration v, slotDuration v \<le> 480, 0 < slotDuration v,
      0 \<le> breakDuration v, breakDuration v \<le> 120, 0 \<le> breakDuration v,
      0 \<le> bufferDuration v, bufferDuration v \<le> 1440, 0 \<le> bufferDuration v]"
  unfolding slotConfigValidationSchema_def list.map prod.case by (rule refl)

text \<open>
  Claim C3, as the code has it: one direction. On a device day without a clock change
  (the times of day are reached in step with the clock) and with a timezone list whose
  names all resolve, a configuration for which \<open>getFormErrors\<close> reports no error passes
  \<open>validateSlotConfig\<close>. The form validation is the stricter of the two.
\<close>

theorem C3_form_valid_implies_generation_valid:
  assumes ok: "getFormErrors A E values = []"
    and names: "list_all (zone_exists A) (zone_names A)"
    and plain: "\<forall>h m. today_minute E h m = today_minute E 0 0 + h * 60 + m"
  shows "validateSlotConfig A values = Inr ()"
proof -
  from ok have "inner_errors A E values = []" by (simp only: getFormErrors_empty_iff)
  then have all: "list_all (\<lambda>ok. ok)
      (map (\<lambda>(path, message, ok). ok) (slotConfigValidationSchema A E values))"
    by (simp only: inner_errors_empty_iff)
  have req: "c_startDate values \<noteq> []" "c_endDate values \<noteq> []" "c_startTime values \<noteq> []"
      "c_endTime values \<noteq> []" "c_timeZone values \<noteq> []"
    and vd: "isValidDate (c_startDate values)" "isValidDate (c_endDate values)"
    and vt: "isValidTime (c_startTime values)" "isValidTime (c_endTime values)"
    and vz: "isValidTimezone A (c_timeZone values)"
    and dur: "5 \<le> slotDuration values" "0 \<le> breakDuration values" "0 \<le> bufferDuration values"
    and after: "(case (moment_time E (c_startTime values), moment_time E (c_endTime values)) of
            (Some start, Some end') \<Rightarrow> start < end'
          | _ \<Rightarrow> False)"
    and enough: "(case (moment_time E (c_startTime values), moment_time E (c_endTime values)) of
            (Some start, Some end') \<Rightarrow> slotDuration values \<le> end' - start
          | _ \<Rightarrow> False)"
    using all unfolding schema_oks list.pred_inject by blast+
  define sh where "sh = dec_value (take 2 (c_startTime values))"
  define sm where "sm = dec_value (drop 3 (c_startTime values))"
  define eh where "eh = dec_value (take 2 (c_endTime values))"
  define em where "em = dec_value (drop 3 (c_endTime values))"
  have rs: "timeRegex_test (c_startTime values)" and ss: "strict_time (c_startTime values) = Some (sh, sm)"
    using strict_time_parts[OF vt(1)] by (simp_all add: sh_def sm_def)
  have re: "timeRegex_test (c_endTime values)" and se: "strict_time (c_endTime values) = Some (eh, em)"
    using strict_time_parts[OF vt(2)] by (simp_all add: eh_def em_def)
  have ps: "today_minute E sh sm = today_minute E 0 0 + sh * 60 + sm"
    and pe: "today_minute E eh em = today_minute E 0 0 + eh * 60 + em"
    using plain by blast+
  have ms: "moment_time E (c_startTime values) = Some (today_minute E sh sm)"
    by (simp add: moment_time_def ss)
  have me: "moment_time E (c_endTime values) = Some (today_minute E eh em)"
    by (simp add: moment_time_def se)
  have lt: "sh * 60 + sm < eh * 60 + em"
    using after unfolding ms me ps pe by simp
  have ge: "slotDuration values \<le> (eh * 60 + em) - (sh * 60 + sm)"
    using enough unfolding ms me ps pe by simp
  have hs: "minutes_of (hm_parts (c_startTime values)) = Some (sh * 60 + sm)"
    by (simp add: timeRegex_hm[OF rs] minutes_of_def sh_def sm_def)
  have he: "minutes_of (hm_parts (c_endTime values)) = Some (eh * 60 + em)"
    by (simp add: timeRegex_hm[OF re] minutes_of_def eh_def em_def)
  have z: "zone_exists A (c_timeZone values)"
    using vz names by (auto simp: isValidTimezone_def list_all_iff)
  have dr: "dateRegex_test (c_startDate values)" "dateRegex_test (c_endDate values)"
    using strict_date_regex vd by blast+
  show ?thesis
    unfolding validateSlotConfig_def
    using req dr rs re dur z lt ge
    by (simp add: hs he)
qed

theorem C3_form_valid_witness:
  "getFormErrors utc_authority plain_day default_config = [] \<and>
   list_all (zone_exists utc_authority) (zone_names utc_authority) \<and>
   (\<forall>h m. today_minute plain_day h m = today_minute plain_day 0 0 + h * 60 + m) \<and>
   validateSlotConfig utc_authority default_config = Inr ()"
proof -
  have ok: "getFormErrors utc_authority plain_day default_config = []" by code_simp
  have names: "list_all (zone_exists utc_authority) (zone_names utc_authority)" by code_simp
  have plain: "\<forall>h m. today_minute plain_day h m = today_minute plain_day 0 0 + h * 60 + m"
    by (simp add: plain_day_def)
  from C3_form_valid_implies_generation_valid[OF ok names plain] ok names plain
  show ?thesis by blast
qed

text \<open>
  The other direction fails. \<open>validateSlotConfig\<close> accepts the default configuration with a
  slot duration of 3 minutes, and it accepts it with the start date 2024-12-31 on a device
  whose day is 2025-01-01; the form validation reports an error for each: it has a lower
  bound of 5 minutes, and a start date must not be in the past.
\<close>

theorem C3_generation_valid_form_invalid_counterexample:
  "validateSlotConfig utc_authority (default_config\<lparr>slotDuration := 3\<rparr>) = Inr () \<and>
   getFormErrors utc_authority plain_day (default_config\<lparr>slotDuration := 3\<rparr>)
     = [(''slotDuration'', ''Slot duration must be at least 5 minutes'')] \<and>
   validateSlotConfig utc_authority (default_config\<lparr>c_startDate := ''2024-12-31''\<rparr>) = Inr () \<and>
   getFormErrors utc_authority plain_day (default_config\<lparr>c_startDate := ''2024-12-31''\<rparr>)
     = [(''startDate'', ''Start date cannot be in the past'')]"
  by code_simp

text \<open>
  The condition on the device day is needed. The form compares the instants of the two
  times of day; on the day of a clock change 02:30 is moved behind 03:00, so the form
  accepts working hours from 03:00 to 02:30, which \<open>validateSlotConfig\<close> rejects by the
  numbers on the clock.
\<close>

lemma form_valid_generation_invalid_on_clock_change:
  "getFormErrors utc_authority clock_change_day
     (default_config\<lparr>c_startTime := ''03:00'', c_endTime := ''02:30''\<rparr>) = [] \<and>
   validateSlotConfig utc_authority
     (default_config\<lparr>c_startTime := ''03:00'', c_endTime := ''02:30''\<rparr>)
     = Inl (Error ''End time must be after start time'')"
  by code_simp

section \<open>Loading from a failing or corrupt store\<close>

text \<open>A stored blob that is not JSON is an absent result for every load, without an error.\<close>

lemma corrupt_blob_is_absent:
  assumes "fault S = None"
  shows "items S key = Some Corrupt \<Longrightarrow> getItem S key = Inr None"
    and "items S SLOT_CONFIG = Some Corrupt \<Longrightarrow> loadSlotConfig S = Inr None"
    and "items S GENERATED_SLOTS = Some Corrupt \<Longrightarrow> loadGeneratedSlots P S = Inr []"
  using assms
  by (simp_all add: getItem_def loadSlotConfig_def loadGeneratedSlots_def
      loadGeneratedSlots_try_def)

text \<open>A failure of the store itself reaches the caller of \<open>getItem\<close> and of
  \<open>loadSlotConfig\<close>; \<open>loadGeneratedSlots\<close> turns it into the empty collection.\<close>

lemma failing_store_loads:
  assumes "fault S = Some m"
  shows "getItem S key = Inl (Error (''Failed to retrieve data: '' @ m))"
    and "loadSlotConfig S = Inl (Error (''Failed to retrieve data: '' @ m))"
    and "loadGeneratedSlots P S = Inr []"
  using assms
  by (simp_all add: getItem_def loadSlotConfig_def loadGeneratedSlots_def
      loadGeneratedSlots_try_def)

text \<open>
  Claim C6 asks that every storage failure other than a malformed blob propagates from
  every load. On a store whose operations fail, \<open>getItem\<close> and \<open>loadSlotConfig\<close> raise the
  error, and \<open>loadGeneratedSlots\<close> returns the empty collection as if nothing were stored.
\<close>

theorem C6_slot_load_absorbs_storage_failure:
  "getItem failing_store GENERATED_SLOTS
     = Inl (Error ''Failed to retrieve data: storage unavailable'') \<and>
   loadSlotConfig failing_store
     = Inl (Error ''Failed to retrieve data: storage unavailable'') \<and>
   loadGeneratedSlots test_platform failing_store = Inr []"
  by (simp add: getItem_def loadSlotConfig_def loadGeneratedSlots_def
      loadGeneratedSlots_try_def failing_store_def)

text \<open>The store of this example fails, and holds nothing that could be malformed.\<close>

theorem C6_slot_load_absorbs_witness:
  "fault failing_store = Some ''storage unavailable'' \<and>
   items failing_store GENERATED_SLOTS = None \<and>
   getItem failing_store GENERATED_SLOTS
     = Inl (Error ''Failed to retrieve data: storage unavailable'') \<and>
   loadGeneratedSlots test_platform failing_store = Inr []"
  using C6_slot_load_absorbs_storage_failure by (simp add: failing_store_def)

section \<open>Saving and loading the slot collection\<close>


lemma save_inversion:
  assumes "saveGeneratedSlots P S slots = Inr S'"
  shows "list_all (\<lambda>slot. id' slot \<noteq> []) slots \<and> fault S' = None \<and>
         items S' GENERATED_SLOTS = Some (Parsed (JArr (map (serialize_slot P) slots)))"
  using assms
  by (auto simp: saveGeneratedSlots_def setItem_def list_ex_iff list_all_iff
      split: if_splits option.splits)

lemma rebuilt_serialized:
  assumes "iso_round_trip P slot"
  shows "rebuilt P (serialize_slot P slot) =
           \<lparr>l_rest = [(''id'', JStr (id' slot)), (''isAvailable'', JBool (isAvailable slot))],
            l_startTime = Some (startTime slot), l_endTime = Some (endTime slot)\<rparr>"
  using assms by (simp add: rebuilt_def serialize_slot_def iso_round_trip_def)

lemma try_map_rebuild:
  "list_all (\<lambda>x. x \<noteq> JNull) xs \<Longrightarrow> try_map (rebuild_slot P) xs = Inr (map (rebuilt P) xs)"
  by (rule try_map_Inr) (simp add: rebuild_slot_def list_all_iff)

lemma load_array:
  assumes "getItem S GENERATED_SLOTS = Inr (Some (JArr stored))"
    and "list_all (\<lambda>x. x \<noteq> JNull) stored"
  shows "loadGeneratedSlots P S = Inr (filter loaded_isValid (map (rebuilt P) stored))"
  using assms by (simp add: loadGeneratedSlots_def loadGeneratedSlots_try_def try_map_rebuild)

lemma load_returns_valid:
  "\<exists>loaded. loadGeneratedSlots P S = Inr loaded \<and>
     list_all (\<lambda>l. l_startTime l \<noteq> None \<and> l_endTime l \<noteq> None) loaded"
proof (cases "loadGeneratedSlots_try P S")
  case (Inl e)
  then show ?thesis by (simp add: loadGeneratedSlots_def)
next
  case (Inr loaded)
  then have "list_all (\<lambda>l. l_startTime l \<noteq> None \<and> l_endTime l \<noteq> None) loaded"
    by (auto simp: loadGeneratedSlots_try_def list_all_iff loaded_isValid_def
        split: sum.splits option.splits json.splits)
  with Inr show ?thesis by (simp add: loadGeneratedSlots_def)
qed

lemma save_load_round_trip:
  assumes saved: "saveGeneratedSlots P S slots = Inr S'"
    and iso: "list_all (iso_round_trip P) slots"
  shows "\<exists>loaded. loadGeneratedSlots P S' = Inr loaded \<and> map as_Slot loaded = map Some slots"
proof -
  from save_inversion[OF saved]
  have ids: "list_all (\<lambda>slot. id' slot \<noteq> []) slots" and nf: "fault S' = None"
    and it: "items S' GENERATED_SLOTS = Some (Parsed (JArr (map (serialize_slot P) slots)))"
    by simp_all
  have g: "getItem S' GENERATED_SLOTS = Inr (Some (JArr (map (serialize_slot P) slots)))"
    by (simp add: getItem_def nf it)
  have nn: "list_all (\<lambda>x. x \<noteq> JNull) (map (serialize_slot P) slots)"
    by (simp add: list_all_iff serialize_slot_def)
  have l: "loadGeneratedSlots P S' =
             Inr (filter loaded_isValid (map (rebuilt P) (map (serialize_slot P) slots)))"
    by (rule load_array[OF g nn])
  have r: "map (rebuilt P) (map (serialize_slot P) slots) =
             map (\<lambda>slot. \<lparr>l_rest = [(''id'', JStr (id' slot)), (''isAvailable'', JBool (isAvailable slot))],
                            l_startTime = Some (startTime slot), l_endTime = Some (endTime slot)\<rparr>) slots"
    using iso by (simp add: list_all_iff rebuilt_serialized)
  have f: "filter loaded_isValid (map (\<lambda>slot. \<lparr>l_rest = [(''id'', JStr (id' slot)), (''isAvailable'', JBool (isAvailable slot))],
                            l_startTime = Some (startTime slot), l_endTime = Some (endTime slot)\<rparr>) slots)
           = map (\<lambda>slot. \<lparr>l_rest = [(''id'', JStr (id' slot)), (''isAvailable'', JBool (isAvailable slot))],
                            l_startTime = Some (startTime slot), l_endTime = Some (endTime slot)\<rparr>) slots"
    using ids by (simp add: list_all_iff loaded_isValid_def filter_map o_def)
  have a: "map as_Slot (map (\<lambda>slot. \<lparr>l_rest = [(''id'', JStr (id' slot)), (''isAvailable'', JBool (isAvailable slot))],
                            l_startTime = Some (startTime slot), l_endTime = Some (endTime slot)\<rparr>) slots)
           = map Some slots"
    by (simp add: as_Slot_def)
  show ?thesis unfolding l r f using a by blast
qed

text \<open>
  Claim C7. When \<open>saveGeneratedSlots\<close> has stored a slot collection, on a platform that reads
  the dates of these slots back from their ISO strings, \<open>loadGeneratedSlots\<close> returns the
  same slots: the same ids, start instants and end instants (and availability flags), in the
  same order. And \<open>loadGeneratedSlots\<close> never fails: every record it returns has two valid
  instants, and from a stored array of records (none of them \<open>null\<close>) it returns exactly
  the valid ones, in their order.
\<close>

theorem C7_save_load_round_trip:
  "(saveGeneratedSlots P S slots = Inr S' \<and> list_all (iso_round_trip P) slots \<longrightarrow>
      (\<exists>loaded. loadGeneratedSlots P S' = Inr loaded \<and> map as_Slot loaded = map Some slots)) \<and>
   (\<exists>loaded. loadGeneratedSlots P S = Inr loaded \<and>
      list_all (\<lambda>l. l_startTime l \<noteq> None \<and> l_endTime l \<noteq> None) loaded) \<and>
   (getItem S GENERATED_SLOTS = Inr (Some (JArr stored)) \<and> list_all (\<lambda>x. x \<noteq> JNull) stored \<longrightarrow>
      loadGeneratedSlots P S = Inr (filter loaded_isValid (map (rebuilt P) stored)))"
  using save_load_round_trip load_returns_valid load_array by blast

lemmas storage_eval =
  loadGeneratedSlots_def loadGeneratedSlots_try_def getItem_def mixed_store_def
  mixed_records_def rebuild_slot_def rebuilt_def loaded_isValid_def test_platform_def
  is_digit_def dec_value_def digit_val_def

text \<open>
  Two slots are saved to the empty store and loaded back; and of the three records of
  \<open>mixed_store\<close> the one with two dates is loaded, the other two are dropped.
\<close>

theorem C7_save_load_witness:
  "saveGeneratedSlots test_platform empty_store two_slots = Inr saved_two \<and>
   list_all (iso_round_trip test_platform) two_slots \<and>
   (\<exists>loaded. loadGeneratedSlots test_platform saved_two = Inr loaded \<and>
      map as_Slot loaded = map Some two_slots) \<and>
   getItem mixed_store GENERATED_SLOTS = Inr (Some (JArr mixed_records)) \<and>
   list_all (\<lambda>x. x \<noteq> JNull) mixed_records \<and>
   loadGeneratedSlots test_platform mixed_store
     = Inr [\<lparr>l_rest = [(''id'', JStr ''slot_0001''), (''isAvailable'', JBool True)],
             l_startTime = Some 3600000, l_endTime = Some 5400000\<rparr>]"
proof -
  have s: "saveGeneratedSlots test_platform empty_store two_slots = Inr saved_two"
    by (simp add: saveGeneratedSlots_def setItem_def empty_store_def two_slots_def saved_two_def)
  have i: "list_all (iso_round_trip test_platform) two_slots"
    by (simp add: iso_round_trip_def test_platform_def two_slots_def dec_string.simps
        digit_char_def is_digit_def dec_value_def digit_val_def)
  have g: "getItem mixed_store GENERATED_SLOTS = Inr (Some (JArr mixed_records))"
    by (simp add: getItem_def mixed_store_def)
  have n: "list_all (\<lambda>x. x \<noteq> JNull) mixed_records" by (simp add: mixed_records_def)
  have f: "filter loaded_isValid (map (rebuilt test_platform) mixed_records) =
      [\<lparr>l_rest = [(''id'', JStr ''slot_0001''), (''isAvailable'', JBool True)],
         l_startTime = Some 3600000, l_endTime = Some 5400000\<rparr>]"
    by (simp add: storage_eval)
  from C7_save_load_round_trip [of test_platform empty_store two_slots saved_two]
  have 1: "\<exists>loaded. loadGeneratedSlots test_platform saved_two = Inr loaded \<and>
      map as_Slot loaded = map Some two_slots"
    using s i by blast
  from C7_save_load_round_trip [where P = test_platform and S = mixed_store
      and stored = mixed_records]
  have 2: "loadGeneratedSlots test_platform mixed_store
             = Inr (filter loaded_isValid (map (rebuilt test_platform) mixed_records))"
    using g n by blast
  show ?thesis using s i 1 g n 2 unfolding f by blast
qed

text \<open>
  A slot with an empty id never reaches the store: \<open>saveGeneratedSlots\<close> rejects the
  collection. And one stored \<open>null\<close> among the records makes the load return the empty
  collection.
\<close>

lemma save_rejects_empty_id:
  "saveGeneratedSlots test_platform empty_store
     [\<lparr>id' = [], startTime = 3600000, endTime = 5400000, isAvailable = True\<rparr>]
   = Inl (Error ''Invalid slot object: missing required fields'')"
  by (simp add: saveGeneratedSlots_def)

lemma load_with_null_record:
  "loadGeneratedSlots test_platform
     (mixed_store\<lparr>items := (\<lambda>key. if key = GENERATED_SLOTS
                                  then Some (Parsed (JArr (JNull # mixed_records)))
                                  else None)\<rparr>) = Inr []"
  by (simp add: storage_eval)

section \<open>Days without slots, and empty results\<close>





end
